theory Spec2Isabelle
  imports Complex_Main "HOL-Library.Word" "HOL-Library.AList"
begin

section \<open>dep-tools: the scene processor, its output paths, the mosaic and the tile pyramid\<close>

text \<open>
  A shallow embedding of \<^verbatim>\<open>dep_tools/Processor.py\<close>. The class \<^verbatim>\<open>Processor\<close> is a
  record of its configuration fields; everything the methods mutate (the keyword dictionary
  handed to the transform, the blob container, the local scratch directory, standard output)
  lives in a separate state record that every method takes and returns. An exception is a
  value of type \<open>error\<close>; a method that can raise returns the error (if any) together with
  the state it had reached when the exception left it.
\<close>

subsection \<open>Exceptions\<close>

datatype error =
    KeyError
  | TypeError
  | AttributeError
  | ValueError
  | FileNotFoundError
  | Raised string

text \<open>
  The classes are Python's: \<^verbatim>\<open>ValueError\<close> is what xarray and numpy raise for an
  operation they reject (clashing names, axes that do not fit); \<open>Raised\<close> is any
  exception of a collaborator (scene search, raster codec, storage service, the user's
  transform).
\<close>

definition bind_result :: "error + 'a \<Rightarrow> ('a \<Rightarrow> error + 'b) \<Rightarrow> error + 'b" where
  "bind_result r f = (case r of Inl e \<Rightarrow> Inl e | Inr x \<Rightarrow> f x)"

fun map_result :: "('a \<Rightarrow> error + 'b) \<Rightarrow> 'a list \<Rightarrow> error + 'b list" where
  "map_result f [] = Inr []"
| "map_result f (x # xs) =
     (case f x of
        Inl e \<Rightarrow> Inl e
      | Inr y \<Rightarrow> (case map_result f xs of Inl e \<Rightarrow> Inl e | Inr ys \<Rightarrow> Inr (y # ys)))"

subsection \<open>Python built-ins used by the code\<close>

text \<open>\<^verbatim>\<open>str(i)\<close> for an integer: decimal digits, a leading minus sign for negatives.\<close>

definition digit_char :: "nat \<Rightarrow> char" where
  "digit_char n = ''0123456789'' ! n"

fun str_nat :: "nat \<Rightarrow> string" where
  "str_nat n = (if n < 10 then [digit_char n] else str_nat (n div 10) @ [digit_char (n mod 10)])"

declare str_nat.simps [simp del]

definition str_int :: "int \<Rightarrow> string" where
  "str_int i = (if i < 0 then CHR ''-'' # str_nat (nat (- i)) else str_nat (nat i))"

text \<open>\<^verbatim>\<open>sep.join(xs)\<close>.\<close>

fun join_str :: "string \<Rightarrow> string list \<Rightarrow> string" where
  "join_str sep [] = []"
| "join_str sep [x] = x"
| "join_str sep (x # y # ys) = x @ sep @ join_str sep (y # ys)"

text \<open>
  \<^verbatim>\<open>pathlib.Path(s).parts\<close> for a relative POSIX path: the components between slashes,
  without the empty ones and without \<^verbatim>\<open>.\<close>; \<^verbatim>\<open>Path(s).stem\<close> is the last component
  without its last suffix.
\<close>

fun split_on :: "char \<Rightarrow> string \<Rightarrow> string list" where
  "split_on c [] = [[]]"
| "split_on c (x # xs) =
     (if x = c then [] # split_on c xs
      else (case split_on c xs of [] \<Rightarrow> [[x]] | w # ws \<Rightarrow> (x # w) # ws))"

definition path_parts :: "string \<Rightarrow> string list" where
  "path_parts s = filter (\<lambda>w. w \<noteq> [] \<and> w \<noteq> ''.'') (split_on CHR ''/'' s)"

definition rfind :: "char \<Rightarrow> string \<Rightarrow> nat option" where
  "rfind c s =
     (if c \<in> set s then Some (length s - 1 - length (takeWhile (\<lambda>x. x \<noteq> c) (rev s)))
      else None)"

definition path_stem :: "string \<Rightarrow> string" where
  "path_stem s =
     (case path_parts s of
        [] \<Rightarrow> []
      | q # qs \<Rightarrow>
          (let name = last (q # qs) in
           case rfind CHR ''.'' name of
             None \<Rightarrow> name
           | Some i \<Rightarrow> if 0 < i \<and> i < length name - 1 then take i name else name))"

subsection \<open>Labelled arrays (xarray), by shape\<close>

text \<open>
  The pipeline never looks at pixel values; it selects, splits and renames along labelled
  dimensions. An xarray object is therefore modelled by its shape: the dimensions in axis
  order, each with its coordinate labels, the scalar coordinates (such as the one
  \<^verbatim>\<open>sel\<close> leaves behind), and for a \<^verbatim>\<open>Dataset\<close> the names of its data variables, each
  of which spans all the dimensions. A label is text or an integer.
\<close>

datatype label = LStr string | LInt int

datatype xr =
    DataArray (xr_dims: "(string \<times> label list) list") (xr_coords: "(string \<times> label) list")
  | Dataset (xr_dims: "(string \<times> label list) list") (xr_coords: "(string \<times> label) list")
      (data_vars: "string list")


fun py_str :: "label \<Rightarrow> string" where
  "py_str (LStr s) = s"
| "py_str (LInt i) = str_int i"

text \<open>
  \<^verbatim>\<open>repr\<close> of a label, as it appears inside the \<^verbatim>\<open>str\<close> of a list; the quoting is
  Python's for text without quotes, backslashes or control characters.
\<close>

fun py_repr :: "label \<Rightarrow> string" where
  "py_repr (LStr s) = CHR 0x27 # s @ [CHR 0x27]"
| "py_repr (LInt i) = str_int i"

definition py_list_str :: "label list \<Rightarrow> string" where
  "py_list_str ls = ''['' @ join_str '', '' (map py_repr ls) @ '']''"

subsection \<open>The processor and what it mutates\<close>

type_synonym geometry = string
type_synonym item = string

record grid =
  index_names :: "string list"
  grid_rows :: "(int list \<times> geometry) list"

datatype kwval = KwArea "(int list \<times> geometry) list" | KwText string | KwInt int

record 's processor =
  scene_processor :: "'s \<Rightarrow> (string \<times> kwval) list \<Rightarrow> error + xr option"
  dataset_id :: string
  year :: "string option"
  overwrite :: bool
  split_output_by_year :: bool
  split_output_by_variable :: bool
  aoi_by_tile :: grid
  scale_and_offset :: bool
  send_area_to_scene_processor :: bool
  dask_chunksize :: nat
  storage_account :: string
  container_name :: string
  credential :: string
  convert_output_to_int16 :: bool
  output_value_multiplier :: int
  output_nodata :: int
  scale_int16s :: bool
  color_ramp_file :: "string option"

text \<open>\<^verbatim>\<open>__post_init__\<close>: the derived names. \<^verbatim>\<open>if self.year\<close> is Python truthiness.\<close>

definition prefix :: "'s processor \<Rightarrow> string" where
  "prefix p =
     (case year p of
        Some y \<Rightarrow>
          if y \<noteq> [] then dataset_id p @ ''/'' @ y @ ''/'' @ dataset_id p @ ''_'' @ y
          else dataset_id p @ ''/'' @ dataset_id p
      | None \<Rightarrow> dataset_id p @ ''/'' @ dataset_id p)"

definition local_prefix :: "'s processor \<Rightarrow> string" where
  "local_prefix p = path_stem (prefix p)"

definition mosaic_file :: "'s processor \<Rightarrow> string" where
  "mosaic_file p = ''data/'' @ local_prefix p @ ''.tif''"

subsection \<open>\<^verbatim>\<open>get_path\<close>\<close>

text \<open>
  The f-strings format \<^verbatim>\<open>year\<close> and \<^verbatim>\<open>variable\<close> with \<^verbatim>\<open>str\<close>; the model takes
  them already formatted, as the annotation \<^verbatim>\<open>Union[str, None]\<close> has them. The index
  is the tuple of integers of one grid row.
\<close>

definition get_path :: "'s processor \<Rightarrow> int list \<Rightarrow> string option \<Rightarrow> string option \<Rightarrow> string" where
  "get_path p index year0 variable0 =
     (let variable = (case variable0 of None \<Rightarrow> dataset_id p | Some v \<Rightarrow> v);
          year1 = (case year0 of None \<Rightarrow> year p | Some y \<Rightarrow> Some y);
          suffix = join_str ''_'' (map str_int index)
      in case year1 of
           Some y \<Rightarrow>
             dataset_id p @ ''/'' @ y @ ''/'' @ variable @ ''_'' @ y @ ''_'' @ suffix @ ''.tif''
         | None \<Rightarrow> dataset_id p @ ''/'' @ variable @ ''_'' @ suffix @ ''.tif'')"

text \<open>
  The Output Path Resolver as the specification words it: the variable defaults to the
  dataset id, the year to the configured year, and the path has one of two shapes.
\<close>

fun path_shape :: "string \<Rightarrow> string option \<Rightarrow> string \<Rightarrow> string \<Rightarrow> string" where
  "path_shape dataset (Some yr) variable tile =
     concat [dataset, ''/'', yr, ''/'', variable, ''_'', yr, ''_'', tile, ''.tif'']"
| "path_shape dataset None variable tile =
     concat [dataset, ''/'', variable, ''_'', tile, ''.tif'']"

definition output_path_resolver ::
  "string \<Rightarrow> string option \<Rightarrow> int list \<Rightarrow> string option \<Rightarrow> string option \<Rightarrow> string" where
  "output_path_resolver dataset configured_year tile yr variable =
     path_shape dataset
       (case yr of None \<Rightarrow> configured_year | Some y \<Rightarrow> Some y)
       (case variable of None \<Rightarrow> dataset | Some v \<Rightarrow> v)
       (join_str ''_'' (map str_int tile))"

subsection \<open>xarray operations the pipeline calls\<close>

definition with_shape :: "xr \<Rightarrow> (string \<times> label list) list \<Rightarrow> (string \<times> label) list \<Rightarrow> xr" where
  "with_shape x ds cs =
     (case x of DataArray _ _ \<Rightarrow> DataArray ds cs | Dataset _ _ vs \<Rightarrow> Dataset ds cs vs)"

text \<open>
  Iterating \<^verbatim>\<open>x.coords[name]\<close>: the labels of a dimension coordinate; a scalar coordinate
  cannot be iterated (\<^verbatim>\<open>TypeError\<close>), a missing one is a \<^verbatim>\<open>KeyError\<close>.
\<close>

definition iter_coord :: "xr \<Rightarrow> string \<Rightarrow> error + label list" where
  "iter_coord x name =
     (case map_of (xr_dims x) name of
        Some ls \<Rightarrow> Inr ls
      | None \<Rightarrow> (case map_of (xr_coords x) name of Some l \<Rightarrow> Inl TypeError | None \<Rightarrow> Inl KeyError))"

text \<open>
  \<^verbatim>\<open>x.sel(name=l)\<close>: a label that occurs once drops the dimension and leaves a scalar
  coordinate; a label that occurs several times keeps the dimension with the matching
  entries; a label that does not occur is a \<^verbatim>\<open>KeyError\<close>.
\<close>

definition xr_sel :: "xr \<Rightarrow> string \<Rightarrow> label \<Rightarrow> error + xr" where
  "xr_sel x name l =
     (case map_of (xr_dims x) name of
        None \<Rightarrow> Inl KeyError
      | Some ls \<Rightarrow>
          (let hits = filter (\<lambda>k. k = l) ls in
           if hits = [] then Inl KeyError
           else if length hits = 1 then
             Inr (with_shape x (AList.delete name (xr_dims x)) (AList.update name l (xr_coords x)))
           else Inr (with_shape x (AList.update name hits (xr_dims x)) (xr_coords x))))"

text \<open>
  \<^verbatim>\<open>[r.to_array().sel(variable=var) for var in r]\<close>. Iterating a \<^verbatim>\<open>Dataset\<close> gives
  the names of its data variables (the keys of a dictionary, so each once).
  \<^verbatim>\<open>to_array()\<close> puts a new axis \<^verbatim>\<open>variable\<close> in front of the dataset's dimensions, and
  the selection removes it again, leaving the scalar coordinate \<^verbatim>\<open>variable\<close>. A dataset
  that already has a dimension \<^verbatim>\<open>variable\<close> gets two axes of one name: xarray rejects them
  when their lengths differ (\<^verbatim>\<open>ValueError\<close>, conflicting sizes) and otherwise indexes both,
  so that dimension is gone from the result. Iterating a \<^verbatim>\<open>DataArray\<close> walks its first
  axis, and a \<^verbatim>\<open>DataArray\<close> has no \<^verbatim>\<open>to_array\<close>.
\<close>

definition split_variables :: "xr \<Rightarrow> error + xr list" where
  "split_variables r =
     (case r of
        Dataset ds cs vs \<Rightarrow>
          (if vs = [] then Inr []
           else case map_of ds ''variable'' of
             None \<Rightarrow>
               Inr (map (\<lambda>v. DataArray ds (AList.update ''variable'' (LStr v) cs)) vs)
           | Some ls \<Rightarrow>
               if length ls = length vs then
                 Inr (map (\<lambda>v. DataArray (AList.delete ''variable'' ds)
                                  (AList.update ''variable'' (LStr v) cs)) vs)
               else Inl ValueError)
      | DataArray ds cs \<Rightarrow>
          (case ds of
             [] \<Rightarrow> Inl TypeError
           | d # _ \<Rightarrow> if snd d = [] then Inr [] else Inl AttributeError))"

text \<open>\<^verbatim>\<open>"_".join(name)\<close> for a pair (time label, variable name): every item must be text.\<close>

definition join_name :: "label \<times> string \<Rightarrow> error + string" where
  "join_name n =
     (case fst n of LStr t \<Rightarrow> Inr (join_str ''_'' [t, snd n]) | LInt _ \<Rightarrow> Inl TypeError)"

text \<open>
  \<^verbatim>\<open>ds.rename_vars({name: "_".join(name) for name in ds.data_vars})\<close> on the dataset that
  \<^verbatim>\<open>to_dataset(dim="z")\<close> made: the names are joined first, and \<^verbatim>\<open>rename_vars\<close>
  rejects a new name that is already taken by a coordinate or by another variable.
\<close>

definition rename_joined ::
  "(string \<times> label list) list \<Rightarrow> (string \<times> label) list \<Rightarrow> string list
     \<Rightarrow> (label \<times> string) list \<Rightarrow> error + xr" where
  "rename_joined ds cs taken pairs =
     bind_result (map_result join_name pairs)
       (\<lambda>names.
          if distinct names \<and> list_all (\<lambda>n. n \<notin> set taken) names
          then Inr (Dataset ds cs names)
          else Inl ValueError)"

text \<open>The positions along an axis that has no coordinate.\<close>

definition positions :: "nat \<Rightarrow> label list" where
  "positions n = map (\<lambda>i. LInt (int i)) [0..<n]"

text \<open>
  \<^verbatim>\<open>ds.to_array(dim="variables").stack(z=["time", "variables"]).to_dataset(dim="z")\<close>,
  renamed, and then without the coordinates \<^verbatim>\<open>variables\<close> and \<^verbatim>\<open>time\<close>
  (lines 207 to 215), step by step:
  \<^item> \<^verbatim>\<open>to_array\<close> needs a variable to stack (\<^verbatim>\<open>ValueError\<close> from numpy otherwise) and
    puts the axis \<^verbatim>\<open>variables\<close> in front; a dataset that already has a dimension of that
    name gets two axes of one name, rejected by \<^verbatim>\<open>stack\<close> at once when their lengths
    differ and when it transposes otherwise;
  \<^item> \<^verbatim>\<open>stack\<close> looks up the size of \<^verbatim>\<open>time\<close> (\<^verbatim>\<open>KeyError\<close> when it is not a
    dimension) and refuses to create \<^verbatim>\<open>z\<close> when \<^verbatim>\<open>z\<close> is a dimension already
    (\<^verbatim>\<open>ValueError\<close>); a scalar coordinate \<^verbatim>\<open>z\<close> is replaced by the new axis;
  \<^item> \<^verbatim>\<open>to_dataset(dim="z")\<close> makes one variable per distinct pair of a time label and a
    variable, time-major. A pair that occurs once loses the axis \<^verbatim>\<open>z\<close>. A pair that
    occurs several times keeps its entries along \<^verbatim>\<open>z\<close>, which fits the coordinates
    along \<^verbatim>\<open>z\<close> only when every entry is that pair (\<^verbatim>\<open>ValueError\<close>, conflicting sizes,
    otherwise); the axis \<^verbatim>\<open>z\<close> then stays, without a coordinate.
\<close>

definition flatten :: "(string \<times> label list) list \<Rightarrow> (string \<times> label) list \<Rightarrow> string list \<Rightarrow> error + xr" where
  "flatten ds cs vs =
     (if vs = [] then Inl ValueError
      else if (case map_of ds ''variables'' of None \<Rightarrow> False | Some ls \<Rightarrow> length ls \<noteq> length vs)
      then Inl ValueError
      else case map_of ds ''time'' of
        None \<Rightarrow> Inl KeyError
      | Some ts \<Rightarrow>
          if ''variables'' \<in> set (map fst ds) \<or> ''z'' \<in> set (map fst ds) then Inl ValueError
          else
            (let pairs = List.product ts vs;
                 rest = AList.delete ''time'' ds;
                 kept = AList.delete ''z'' (AList.delete ''variables'' (AList.delete ''time'' cs));
                 taken = map fst ds @ map fst cs
             in if distinct pairs then rename_joined rest kept taken pairs
                else if list_all (\<lambda>q. q = hd pairs) pairs then
                  rename_joined (rest @ [(''z'', positions (length pairs))]) kept taken [hd pairs]
                else Inl ValueError))"

text \<open>\<^verbatim>\<open>x.squeeze()\<close>: every axis of length one becomes a scalar coordinate.\<close>

definition squeeze :: "xr \<Rightarrow> xr" where
  "squeeze x =
     with_shape x (filter (\<lambda>d. length (snd d) \<noteq> 1) (xr_dims x))
       (xr_coords x @
        concat (map (\<lambda>d. case snd d of [l] \<Rightarrow> [(fst d, l)] | _ \<Rightarrow> []) (xr_dims x)))"

text \<open>
  \<^verbatim>\<open>r.coords[name].values.tolist() if name in r.coords else None\<close>, as the f-string of
  \<^verbatim>\<open>get_path\<close> will print it: a scalar coordinate prints its label, a dimension coordinate
  prints as a list.
\<close>

definition coord_text :: "xr \<Rightarrow> string \<Rightarrow> string option" where
  "coord_text x name =
     (case map_of (xr_coords x) name of
        Some l \<Rightarrow> Some (py_str l)
      | None \<Rightarrow> (case map_of (xr_dims x) name of Some ls \<Rightarrow> Some (py_list_str ls) | None \<Rightarrow> None))"

subsection \<open>Collaborators and state\<close>

text \<open>
  The functions the module imports (scene search, stacking, masking, the raster codec, the
  storage service, GDAL) are parameters: each returns its value or the exception it raised.
  The image stack \<open>'s\<close> is opaque, a lazily evaluated array that only they look into.
\<close>

record search_args =
  collections :: "string list"
  datetime :: "string option"
  bbox :: "real list"

record 's env =
  gpdf_bounds :: "(int list \<times> geometry) list \<Rightarrow> error + real list"
  item_collection_for_pathrow :: "int \<Rightarrow> int \<Rightarrow> search_args \<Rightarrow> error + item list"
  fix_bad_epsgs :: "item list \<Rightarrow> error + item list"
  stackstac_stack :: "item list \<Rightarrow> nat \<Rightarrow> nat \<Rightarrow> nat \<Rightarrow> error + 's"
  rio_clip :: "'s \<Rightarrow> geometry list \<Rightarrow> error + 's"
  mask_clouds :: "'s \<Rightarrow> error + 's"
  apply_scale_and_offset :: "'s \<Rightarrow> real list \<Rightarrow> real \<Rightarrow> error + 's"
  scale_to_int16 :: "xr \<Rightarrow> int \<Rightarrow> int \<Rightarrow> bool \<Rightarrow> error + xr"
  upload_blob :: "string \<Rightarrow> error option"
  gdal_BuildVRT :: "string list \<Rightarrow> real list \<Rightarrow> error + string"
  rio_to_raster :: "string option \<Rightarrow> error + string"
  set_scales :: "string \<Rightarrow> real \<Rightarrow> error + string"
  gdal_DEMProcessing :: "string option \<Rightarrow> string option \<Rightarrow> error + string"
  gdal2tiles_main :: "string list \<Rightarrow> string \<Rightarrow> error + (string list \<times> string) list"

datatype blob = RasterBlob xr string string | FileBlob string

text \<open>
  The state: what was printed, the dictionary \<^verbatim>\<open>scene_processor_kwargs\<close> (the caller's
  object, which the processor holds by reference and updates in place), the blob container
  with the log of the uploads the storage service received, and the files of the local
  working directory, each under the parts of its path (directories are implicit).
\<close>

record state =
  stdout :: "int list list"
  scene_processor_kwargs :: "(string \<times> kwval) list"
  blobs :: "(string \<times> blob) list"
  uploads :: "string list"
  local_files :: "(string list \<times> string) list"

subsection \<open>\<^verbatim>\<open>write_to_blob_storage\<close>\<close>

text \<open>
  Modelled from the spec: \<^verbatim>\<open>write_to_blob_storage\<close> of \<^verbatim>\<open>dep_tools.utils\<close> is not
  among the sources. The specification has it write the artifact through the raster codec
  to its destination, "honoring an overwrite flag: when false, an existing destination is
  left untouched and the write is a no-op"; a failure of the storage service is raised to
  the caller.
\<close>

definition write_to_blob_storage ::
  "'s env \<Rightarrow> xr \<Rightarrow> string \<Rightarrow> string \<times> string \<Rightarrow> bool \<Rightarrow> state \<Rightarrow> error option \<times> state" where
  "write_to_blob_storage env d path write_args ow st =
     (if \<not> ow \<and> path \<in> set (map fst (blobs st)) then (None, st)
      else case upload_blob env path of
        Some e \<Rightarrow> (Some e, st)
      | None \<Rightarrow>
          (None, st\<lparr>blobs := AList.update path (RasterBlob d (fst write_args) (snd write_args)) (blobs st),
                    uploads := uploads st @ [path]\<rparr>))"

subsection \<open>\<^verbatim>\<open>process_by_scene\<close>\<close>

text \<open>\<^verbatim>\<open>self.aoi_by_tile.loc[[index]]\<close> and \<^verbatim>\<open>dict(zip(names, index))[key]\<close>.\<close>

definition loc_rows :: "grid \<Rightarrow> int list \<Rightarrow> (int list \<times> geometry) list" where
  "loc_rows g index = filter (\<lambda>r. fst r = index) (grid_rows g)"

definition dict_get :: "('k \<times> 'v) list \<Rightarrow> 'k \<Rightarrow> error + 'v" where
  "dict_get kvs k = (case map_of (rev kvs) k of None \<Rightarrow> Inl KeyError | Some v \<Rightarrow> Inr v)"

definition get_stack ::
  "'s env \<Rightarrow> 's processor \<Rightarrow> item list \<Rightarrow> (int list \<times> geometry) list \<Rightarrow> error + 's" where
  "get_stack env p item_collection these_areas =
     bind_result (stackstac_stack env item_collection 8859 (dask_chunksize p) 30)
       (\<lambda>s. rio_clip env s (map snd these_areas))"

text \<open>
  Lines 116 to 128 of the loop body, the search for the scenes of one tile; lines 130 to 143,
  the masked and rescaled stack of a tile with scenes. \<open>None\<close> is the \<^verbatim>\<open>continue\<close>
  of a tile without scenes.
\<close>

definition tile_search :: "'s env \<Rightarrow> 's processor \<Rightarrow> int list \<Rightarrow> error + item list" where
  "tile_search env p index =
     (let these_areas = loc_rows (aoi_by_tile p) index;
          index_dict = zip (index_names (aoi_by_tile p)) index
      in bind_result (dict_get index_dict ''PATH'') (\<lambda>path.
         bind_result (dict_get index_dict ''ROW'') (\<lambda>row.
         bind_result (gpdf_bounds env these_areas) (\<lambda>bounds.
           item_collection_for_pathrow env path row
             \<lparr>collections = [''landsat-c2-l2''], datetime = year p, bbox = bounds\<rparr>))))"

definition tile_stack :: "'s env \<Rightarrow> 's processor \<Rightarrow> int list \<Rightarrow> error + 's option" where
  "tile_stack env p index =
     bind_result (tile_search env p index)
       (\<lambda>item_collection.
          if length item_collection = 0 then Inr None
          else
            bind_result (fix_bad_epsgs env item_collection) (\<lambda>fixed.
            bind_result (get_stack env p fixed (loc_rows (aoi_by_tile p) index)) (\<lambda>item_xr.
            bind_result (mask_clouds env item_xr) (\<lambda>masked.
            bind_result
              (if scale_and_offset p
               then apply_scale_and_offset env masked [0.0000275] (- 0.2)
               else Inr masked)
              (\<lambda>scaled. Inr (Some scaled))))))"

text \<open>
  Lines 145 and 146: the dictionary the transform is called with. With
  \<^verbatim>\<open>send_area_to_scene_processor\<close> the entry \<^verbatim>\<open>area\<close> is written into the dictionary
  itself (\<^verbatim>\<open>dict.update\<close>), not into a copy.
\<close>

definition kwargs_sent ::
  "'s processor \<Rightarrow> int list \<Rightarrow> (string \<times> kwval) list \<Rightarrow> (string \<times> kwval) list" where
  "kwargs_sent p index kw =
     (if send_area_to_scene_processor p
      then AList.update ''area'' (KwArea (loc_rows (aoi_by_tile p) index)) kw
      else kw)"

text \<open>
  Lines 160 to 177: the split by year, then by variable. \<open>Many\<close> is a Python list,
  \<open>Single\<close> the object the transform returned.
\<close>

datatype results = Single xr | Many "xr list"

definition split_by_year :: "xr \<Rightarrow> error + xr list" where
  "split_by_year r =
     bind_result (iter_coord r ''time'') (map_result (\<lambda>yr. xr_sel r ''time'' yr))"

definition decompose :: "'s processor \<Rightarrow> xr \<Rightarrow> error + results" where
  "decompose p r =
     (if split_output_by_year p then
        bind_result (split_by_year r)
          (\<lambda>rs. if split_output_by_variable p then
                   bind_result (map_result split_variables rs) (\<lambda>xss. Inr (Many (concat xss)))
                 else Inr (Many rs))
      else if split_output_by_variable p then
        bind_result (split_variables r) (\<lambda>xs. Inr (Many xs))
      else Inr (Single r))"

text \<open>
  Lines 179 to 223 without the writes: each object to write, with its path. For a list the
  year and the variable of the path come from the coordinates of each element; a single
  object of more than two dimensions is flattened first (\<^verbatim>\<open>results.dims.keys()\<close> exists
  for a \<^verbatim>\<open>Dataset\<close> only), and squeezed.
\<close>

definition artifacts :: "'s processor \<Rightarrow> int list \<Rightarrow> results \<Rightarrow> error + (string \<times> xr) list" where
  "artifacts p index res =
     (case res of
        Many rs \<Rightarrow>
          Inr (map (\<lambda>r. (get_path p index (coord_text r ''time'') (coord_text r ''variable''), r)) rs)
      | Single r \<Rightarrow>
          (case r of
             DataArray _ _ \<Rightarrow> Inl AttributeError
           | Dataset ds cs vs \<Rightarrow>
               bind_result (if length ds > 2 then flatten ds cs vs else Inr r)
                 (\<lambda>flat. Inr [(get_path p index None None, squeeze flat)])))"

definition output_artifacts ::
  "'s processor \<Rightarrow> int list \<Rightarrow> xr \<Rightarrow> error + (string \<times> xr) list" where
  "output_artifacts p index r = bind_result (decompose p r) (artifacts p index)"

text \<open>Lines 152 to 158, the quantization when it is enabled, and then the decomposition.\<close>

definition tile_artifacts ::
  "'s env \<Rightarrow> 's processor \<Rightarrow> int list \<Rightarrow> xr \<Rightarrow> error + (string \<times> xr) list" where
  "tile_artifacts env p index r =
     bind_result
       (if convert_output_to_int16 p
        then scale_to_int16 env r (output_value_multiplier p) (output_nodata p) (scale_int16s p)
        else Inr r)
       (output_artifacts p index)"

fun write_all ::
  "'s env \<Rightarrow> 's processor \<Rightarrow> (string \<times> xr) list \<Rightarrow> state \<Rightarrow> error option \<times> state" where
  "write_all env p [] st = (None, st)"
| "write_all env p (a # rest) st =
     (case write_to_blob_storage env (snd a) (fst a) (''COG'', ''LZW'') (overwrite p) st of
        (Some e, st') \<Rightarrow> (Some e, st')
      | (None, st') \<Rightarrow> write_all env p rest st')"

text \<open>
  One iteration of the loop. Nothing in the body catches an exception: the error leaves the
  iteration with the state as it is at that point.
\<close>

definition process_tile ::
  "'s env \<Rightarrow> 's processor \<Rightarrow> int list \<Rightarrow> state \<Rightarrow> error option \<times> state" where
  "process_tile env p index st =
     (let st1 = st\<lparr>stdout := stdout st @ [index]\<rparr> in
      case tile_stack env p index of
        Inl e \<Rightarrow> (Some e, st1)
      | Inr None \<Rightarrow> (None, st1)
      | Inr (Some item_xr) \<Rightarrow>
          (let st2 = st1\<lparr>scene_processor_kwargs :=
                          kwargs_sent p index (scene_processor_kwargs st1)\<rparr>
           in case scene_processor p item_xr (scene_processor_kwargs st2) of
                Inl e \<Rightarrow> (Some e, st2)
              | Inr None \<Rightarrow> (None, st2)
              | Inr (Some r) \<Rightarrow>
                  (case tile_artifacts env p index r of
                     Inl e \<Rightarrow> (Some e, st2)
                   | Inr arts \<Rightarrow> write_all env p arts st2)))"

text \<open>The loop over the rows of the grid, and the method.\<close>

fun process_tiles ::
  "'s env \<Rightarrow> 's processor \<Rightarrow> int list list \<Rightarrow> state \<Rightarrow> error option \<times> state" where
  "process_tiles env p [] st = (None, st)"
| "process_tiles env p (index # rest) st =
     (case process_tile env p index st of
        (Some e, st') \<Rightarrow> (Some e, st')
      | (None, st') \<Rightarrow> process_tiles env p rest st')"

definition process_by_scene :: "'s env \<Rightarrow> 's processor \<Rightarrow> state \<Rightarrow> error option \<times> state" where
  "process_by_scene env p st = process_tiles env p (map fst (grid_rows (aoi_by_tile p))) st"

subsection \<open>The mosaic\<close>

definition is_file :: "state \<Rightarrow> string \<Rightarrow> bool" where
  "is_file st path = (path_parts path \<in> set (map fst (local_files st)))"

definition file_content :: "state \<Rightarrow> string \<Rightarrow> string option" where
  "file_content st path = map_of (local_files st) (path_parts path)"

definition write_file :: "state \<Rightarrow> string \<Rightarrow> string \<Rightarrow> state" where
  "write_file st path content =
     st\<lparr>local_files := AList.update (path_parts path) content (local_files st)\<rparr>"

definition startswith :: "string \<Rightarrow> string \<Rightarrow> bool" where
  "startswith s pre = (take (length pre) s = pre)"

text \<open>
  \<^verbatim>\<open>build_vrt(self, bounds)\<close>. The parameter has no default: a call that passes no
  \<^verbatim>\<open>bounds\<close> (\<open>None\<close> here) raises \<^verbatim>\<open>TypeError\<close> before the body runs.
\<close>

definition build_vrt ::
  "'s env \<Rightarrow> 's processor \<Rightarrow> real list option \<Rightarrow> state \<Rightarrow> (error + string) \<times> state" where
  "build_vrt env p bounds st =
     (case bounds of
        None \<Rightarrow> (Inl TypeError, st)
      | Some b \<Rightarrow>
          (let sources =
                 map (\<lambda>n. ''/vsiaz/'' @ container_name p @ ''/'' @ n)
                   (filter (\<lambda>n. startswith n (prefix p)) (map fst (blobs st)));
               vrt_file = ''data/'' @ local_prefix p @ ''.vrt''
           in case gdal_BuildVRT env sources b of
                Inl e \<Rightarrow> (Inl e, st)
              | Inr doc \<Rightarrow> (Inr vrt_file, write_file st vrt_file doc)))"

text \<open>
  \<^verbatim>\<open>mosaic_scenes\<close>. It calls \<^verbatim>\<open>self.build_vrt()\<close> with no argument. The lock of the
  write is a matter of the codec and the scheduler and is not modelled.
\<close>

definition mosaic_scenes ::
  "'s env \<Rightarrow> 's processor \<Rightarrow> real option \<Rightarrow> bool \<Rightarrow> state \<Rightarrow> error option \<times> state" where
  "mosaic_scenes env p scale_factor ow st =
     (if \<not> is_file st (mosaic_file p) \<or> ow then
        (case build_vrt env p None st of
           (Inl e, st1) \<Rightarrow> (Some e, st1)
         | (Inr vrt_file, st1) \<Rightarrow>
             (case rio_to_raster env (file_content st1 vrt_file) of
                Inl e \<Rightarrow> (Some e, st1)
              | Inr raster \<Rightarrow>
                  (let st2 = write_file st1 (mosaic_file p) raster in
                   case scale_factor of
                     None \<Rightarrow> (None, st2)
                   | Some f \<Rightarrow>
                       (case set_scales env raster f of
                          Inl e \<Rightarrow> (Some e, st2)
                        | Inr scaled \<Rightarrow> (None, write_file st2 (mosaic_file p) scaled)))))
      else (None, st))"

subsection \<open>The tile pyramid\<close>

definition dst_name :: "'s processor \<Rightarrow> string" where
  "dst_name p = ''data/tiles/'' @ prefix p"

definition max_zoom :: int where
  "max_zoom = 11"

definition gdal2tiles_args :: "'s processor \<Rightarrow> string \<Rightarrow> string list" where
  "gdal2tiles_args p dst_vrt_file =
     [''gdal2tiles.py'', ''--tilesize=512'', ''--processes=4'',
      ''--zoom=0-'' @ str_int max_zoom, ''-x'', dst_vrt_file, dst_name p]"

text \<open>
  Lines 272 to 298 of \<^verbatim>\<open>create_tiles\<close>: the mosaic (when asked for), the colour relief
  and the call of \<^verbatim>\<open>gdal2tiles.main\<close>, which returns once it has written every file of the
  pyramid under \<^verbatim>\<open>dst_name\<close>; the renderer gives the files relative to that directory.
\<close>

definition add_rendered :: "'s processor \<Rightarrow> string list \<times> string \<Rightarrow> state \<Rightarrow> state" where
  "add_rendered p t st =
     st\<lparr>local_files := AList.update (path_parts (dst_name p) @ fst t) (snd t) (local_files st)\<rparr>"

definition render_tiles ::
  "'s env \<Rightarrow> 's processor \<Rightarrow> bool \<Rightarrow> state \<Rightarrow> error option \<times> state" where
  "render_tiles env p remake_mosaic st =
     (case (if remake_mosaic then mosaic_scenes env p (Some (1 / 1000)) True st else (None, st)) of
        (Some e, st1) \<Rightarrow> (Some e, st1)
      | (None, st1) \<Rightarrow>
          (let dst_vrt_file = ''data/'' @ local_prefix p @ ''_rgb.vrt'' in
           case gdal_DEMProcessing env (file_content st1 (mosaic_file p)) (color_ramp_file p) of
             Inl e \<Rightarrow> (Some e, st1)
           | Inr relief \<Rightarrow>
               (let st2 = write_file st1 dst_vrt_file relief in
                case gdal2tiles_main env (gdal2tiles_args p dst_vrt_file) relief of
                  Inl e \<Rightarrow> (Some e, st2)
                | Inr rendered \<Rightarrow> (None, fold (add_rendered p) rendered st2))))"

text \<open>
  \<^verbatim>\<open>copy_to_blob_storage\<close>, and the loop of lines 300 to 304 over the paths that
  \<^verbatim>\<open>rglob\<close> found. The remote path is \<^verbatim>\<open>tiles\<close> followed by the parts of the local
  path from the fifth on.
\<close>

definition copy_to_blob_storage ::
  "'s env \<Rightarrow> string list \<Rightarrow> string \<Rightarrow> state \<Rightarrow> error option \<times> state" where
  "copy_to_blob_storage env local_path remote_path st =
     (case map_of (local_files st) local_path of
        None \<Rightarrow> (Some FileNotFoundError, st)
      | Some src \<Rightarrow>
          (case upload_blob env remote_path of
             Some e \<Rightarrow> (Some e, st)
           | None \<Rightarrow>
               (None, st\<lparr>blobs := AList.update remote_path (FileBlob src) (blobs st),
                         uploads := uploads st @ [remote_path]\<rparr>)))"

definition remote_path_of :: "string list \<Rightarrow> string" where
  "remote_path_of parts = join_str ''/'' (''tiles'' # drop 4 parts)"

definition unlink :: "string list \<Rightarrow> state \<Rightarrow> state" where
  "unlink local_path st = st\<lparr>local_files := AList.delete local_path (local_files st)\<rparr>"

fun upload_tiles :: "'s env \<Rightarrow> string list list \<Rightarrow> state \<Rightarrow> error option \<times> state" where
  "upload_tiles env [] st = (None, st)"
| "upload_tiles env (local_path # rest) st =
     (if local_path \<in> set (map fst (local_files st)) then
        (case copy_to_blob_storage env local_path (remote_path_of local_path) st of
           (Some e, st1) \<Rightarrow> (Some e, st1)
         | (None, st1) \<Rightarrow> upload_tiles env rest (unlink local_path st1))
      else upload_tiles env rest st)"

definition below :: "string list \<Rightarrow> string list \<Rightarrow> bool" where
  "below dir f = (length dir < length f \<and> take (length dir) f = dir)"

definition rglob :: "state \<Rightarrow> string \<Rightarrow> string list list" where
  "rglob st dir = filter (below (path_parts dir)) (map fst (local_files st))"

definition create_tiles ::
  "'s env \<Rightarrow> 's processor \<Rightarrow> bool \<Rightarrow> state \<Rightarrow> error option \<times> state" where
  "create_tiles env p remake_mosaic st =
     (case render_tiles env p remake_mosaic st of
        (Some e, st1) \<Rightarrow> (Some e, st1)
      | (None, st1) \<Rightarrow> upload_tiles env (rglob st1 (dst_name p)) st1)"

subsection \<open>Quantization\<close>

text \<open>
  Modelled from the spec: \<^verbatim>\<open>scale_to_int16\<close> of \<^verbatim>\<open>dep_tools.utils\<close> is not among the
  sources; the pipeline above takes it as a collaborator. The specification describes it
  value by value: "scale floating values by a multiplier, round, cast to a signed 16-bit
  integer, and map any resulting value that collides with the chosen nodata sentinel, or any
  input nodata/NaN, to that sentinel". A floating value is a real number here (rounding to
  the nearest integer, a tie upwards), or not a number, or the input's nodata mark; the cast
  wraps around as a 16-bit word does.
\<close>

datatype pixel = Finite real | NaN | NoData

definition to_int16 :: "int \<Rightarrow> 16 word" where
  "to_int16 k = word_of_int k"

definition quantize :: "int \<Rightarrow> int \<Rightarrow> pixel \<Rightarrow> 16 word" where
  "quantize multiplier sentinel px =
     (case px of
        Finite v \<Rightarrow>
          (let q = to_int16 (round (v * of_int multiplier)) in
           if q = to_int16 sentinel then to_int16 sentinel else q)
      | NaN \<Rightarrow> to_int16 sentinel
      | NoData \<Rightarrow> to_int16 sentinel)"

definition decode :: "int \<Rightarrow> 16 word \<Rightarrow> real" where
  "decode multiplier q = of_int (sint q) / of_int multiplier"

subsection \<open>Notions used in the statements and proofs\<close>

text \<open>The year and the variable that \<^verbatim>\<open>get_path\<close> prints, after its defaults.\<close>

definition year_used :: "'s processor \<Rightarrow> string option \<Rightarrow> string option" where
  "year_used p yr = (case yr of None \<Rightarrow> year p | Some y \<Rightarrow> Some y)"

definition variable_used :: "'s processor \<Rightarrow> string option \<Rightarrow> string" where
  "variable_used p variable = (case variable of None \<Rightarrow> dataset_id p | Some v \<Rightarrow> v)"

text \<open>Text that can stand as one component of a path.\<close>

definition slash_free :: "string \<Rightarrow> bool" where
  "slash_free s = (CHR ''/'' \<notin> set s)"

definition slash_free_year :: "string option \<Rightarrow> bool" where
  "slash_free_year yr = (case yr of None \<Rightarrow> True | Some y \<Rightarrow> slash_free y)"

text \<open>The tile id as it appears in a path.\<close>

definition tile_suffix :: "int list \<Rightarrow> string" where
  "tile_suffix index = join_str ''_'' (map str_int index)"


text \<open>
  The names in the container, and two keyword dictionaries from which the transform call of
  every tile is the same.
\<close>

definition blob_names :: "state \<Rightarrow> string set" where
  "blob_names st = set (map fst (blobs st))"

definition same_calls :: "'s processor \<Rightarrow> (string \<times> kwval) list \<Rightarrow> (string \<times> kwval) list \<Rightarrow> bool" where
  "same_calls p kw kw' = (\<forall>index. kwargs_sent p index kw' = kwargs_sent p index kw)"





text \<open>The paths of the local files.\<close>

definition file_names :: "state \<Rightarrow> string list set" where
  "file_names st = set (map fst (local_files st))"

subsection \<open>A concrete run\<close>

text \<open>
  The dataclass with its defaults (the grid, the storage account and the credential come
  from a file and from the environment), and the values the examples below run on: a grid of
  two Landsat tiles, a transform that returns one variable over one year, collaborators that
  find one scene for path 12 and none elsewhere.
\<close>

definition new_processor ::
  "('s \<Rightarrow> (string \<times> kwval) list \<Rightarrow> error + xr option) \<Rightarrow> string \<Rightarrow> grid \<Rightarrow> 's processor" where
  "new_processor f d g =
     \<lparr>scene_processor = f, dataset_id = d, year = None, overwrite = False,
      split_output_by_year = False, split_output_by_variable = False, aoi_by_tile = g,
      scale_and_offset = True, send_area_to_scene_processor = False, dask_chunksize = 4096,
      storage_account = ''account'', container_name = ''output'', credential = ''token'',
      convert_output_to_int16 = True, output_value_multiplier = 10000,
      output_nodata = - 32767, scale_int16s = False, color_ramp_file = None\<rparr>"

definition landsat_grid :: grid where
  "landsat_grid =
     \<lparr>index_names = [''PATH'', ''ROW''],
      grid_rows = [([12, 60], ''POLYGON A''), ([10, 50], ''POLYGON B'')]\<rparr>"

definition ndvi_result :: xr where
  "ndvi_result =
     Dataset [(''time'', [LStr ''2020'']), (''y'', [LInt 0, LInt 30]), (''x'', [LInt 0, LInt 30])]
       [] [''ndvi'']"

definition ndvi_2020 :: "item list processor" where
  "ndvi_2020 = (new_processor (\<lambda>s kw. Inr (Some ndvi_result)) ''ndvi'' landsat_grid)
     \<lparr>year := Some ''2020''\<rparr>"

definition demo_env :: "item list env" where
  "demo_env =
     \<lparr>gpdf_bounds = (\<lambda>areas. Inr [0, 0, 1, 1]),
      item_collection_for_pathrow =
        (\<lambda>path row args. if path = 12 then Inr [''LC08_012060''] else Inr []),
      fix_bad_epsgs = Inr,
      stackstac_stack = (\<lambda>items epsg chunksize resolution. Inr items),
      rio_clip = (\<lambda>s geometries. Inr s),
      mask_clouds = Inr,
      apply_scale_and_offset = (\<lambda>s scale offset. Inr s),
      scale_to_int16 = (\<lambda>r multiplier nodata scale_ints. Inr r),
      upload_blob = (\<lambda>name. None),
      gdal_BuildVRT = (\<lambda>sources bounds. Inr ''vrt''),
      rio_to_raster = (\<lambda>doc. Inr ''raster''),
      set_scales = (\<lambda>raster factor. Inr raster),
      gdal_DEMProcessing = (\<lambda>mosaic ramp. Inr ''relief''),
      gdal2tiles_main =
        (\<lambda>args relief. Inr [([''0'', ''0'', ''0.png''], ''tile a''),
                             ([''1'', ''0'', ''1.png''], ''tile b'')])\<rparr>"

definition empty_state :: state where
  "empty_state =
     \<lparr>stdout = [], scene_processor_kwargs = [], blobs = [], uploads = [], local_files = []\<rparr>"

text \<open>
  Collaborators that find a scene for both tiles, and a stack that cannot be built for the
  scene of path 12.
\<close>

definition failing_env :: "item list env" where
  "failing_env =
     demo_env
       \<lparr>item_collection_for_pathrow :=
          (\<lambda>path row args. if path = 12 then Inr [''LC08_012060''] else Inr [''LC08_010050'']),
        stackstac_stack :=
          (\<lambda>items epsg chunksize resolution.
             if items = [''LC08_012060''] then Inl (Raised ''read failed'') else Inr items)\<rparr>"

text \<open>
  A transform that declines to produce a result, called with the area; a transform that
  fails without the entry \<^verbatim>\<open>area\<close>.
\<close>

definition no_result :: "item list processor" where
  "no_result = ndvi_2020\<lparr>scene_processor := (\<lambda>s kw. Inr None), send_area_to_scene_processor := True\<rparr>"


text \<open>The state after the first run of the example.\<close>

definition first_run :: state where
  "first_run =
     empty_state
       \<lparr>stdout := [[12, 60], [10, 50]],
        blobs := [(''ndvi/2020/ndvi_2020_12_60.tif'',
                   RasterBlob (Dataset [(''y'', [LInt 0, LInt 30]), (''x'', [LInt 0, LInt 30])]
                                 [] [''2020_ndvi'']) ''COG'' ''LZW'')],
        uploads := [''ndvi/2020/ndvi_2020_12_60.tif'']\<rparr>"





text \<open>
  A working directory that already holds the mosaic of the example; the same directory when
  the renderer has returned, and the state when \<^verbatim>\<open>create_tiles\<close> has.
\<close>

definition with_mosaic :: state where
  "with_mosaic = empty_state\<lparr>local_files := [([''data'', ''ndvi_2020.tif''], ''mosaic'')]\<rparr>"

definition rendered_state :: state where
  "rendered_state =
     with_mosaic
       \<lparr>local_files :=
          [([''data'', ''ndvi_2020.tif''], ''mosaic''),
           ([''data'', ''ndvi_2020_rgb.vrt''], ''relief''),
           ([''data'', ''tiles'', ''ndvi'', ''2020'', ''ndvi_2020'', ''0'', ''0'', ''0.png''], ''tile a''),
           ([''data'', ''tiles'', ''ndvi'', ''2020'', ''ndvi_2020'', ''1'', ''0'', ''1.png''], ''tile b'')]\<rparr>"

definition after_tiles :: state where
  "after_tiles =
     with_mosaic
       \<lparr>blobs := [(''tiles/ndvi_2020/0/0/0.png'', FileBlob ''tile a''),
                  (''tiles/ndvi_2020/1/0/1.png'', FileBlob ''tile b'')],
        uploads := [''tiles/ndvi_2020/0/0/0.png'', ''tiles/ndvi_2020/1/0/1.png''],
        local_files := [([''data'', ''ndvi_2020.tif''], ''mosaic''),
                        ([''data'', ''ndvi_2020_rgb.vrt''], ''relief'')]\<rparr>"

section \<open>Properties\<close>

subsection \<open>The Output Path Resolver\<close>

text \<open>
  C5: for every dataset id, tile id, optional year and optional variable, \<^verbatim>\<open>get_path\<close>
  returns \<^verbatim>\<open>{dataset}/{year}/{variable}_{year}_{tile id joined by underscore}.tif\<close> when a
  year is present and \<^verbatim>\<open>{dataset}/{variable}_{tile id}.tif\<close> otherwise, the variable
  defaulting to the dataset id and the year to the configured year: the code computes what
  the specification's resolver computes.
\<close>

theorem get_path_shape:
  "get_path p index yr variable =
     output_path_resolver (dataset_id p) (year p) index yr variable"
  by (cases yr; cases variable; cases "year p")
     (simp_all add: get_path_def output_path_resolver_def)

subsection \<open>Text of integers and joined names\<close>

lemma cut_at_first:
  "c \<notin> set a \<Longrightarrow> c \<notin> set b \<Longrightarrow> a @ c # r = b @ c # r' \<Longrightarrow> a = b \<and> r = r'"
proof (induction a arbitrary: b)
  case Nil
  then show ?case by (cases b) auto
next
  case (Cons x a)
  then show ?case by (cases b) auto
qed

lemma cut_at_last:
  assumes "c \<notin> set a" "c \<notin> set b" "r @ c # a = r' @ c # b"
  shows "a = b \<and> r = r'"
proof -
  from assms(3) have "rev (r @ c # a) = rev (r' @ c # b)" by simp
  then have "rev a @ c # rev r = rev b @ c # rev r'" by simp
  with assms(1,2) have "rev a = rev b \<and> rev r = rev r'"
    by (intro cut_at_first [of c]) auto
  then show ?thesis by simp
qed

lemma digit_char_in: "n < 10 \<Longrightarrow> digit_char n \<in> set ''0123456789''"
  unfolding digit_char_def by (rule nth_mem) simp

lemma digit_char_inj:
  assumes "a < 10" "b < 10" "digit_char a = digit_char b"
  shows "a = b"
proof -
  have "distinct ''0123456789''" by simp
  moreover have "a < length ''0123456789''" "b < length ''0123456789''" using assms by simp_all
  ultimately show ?thesis using assms(3) unfolding digit_char_def
    by (simp only: nth_eq_iff_index_eq)
qed

lemma str_nat_nonempty: "str_nat n \<noteq> []"
  by (subst str_nat.simps) simp

lemma str_nat_digits: "set (str_nat n) \<subseteq> set ''0123456789''"
proof (induction n rule: str_nat.induct)
  case (1 n)
  show ?case
  proof (cases "n < 10")
    case True
    then show ?thesis using digit_char_in [of n] by (subst str_nat.simps) simp
  next
    case False
    have "n mod 10 < 10" by simp
    then have "digit_char (n mod 10) \<in> set ''0123456789''" by (rule digit_char_in)
    with False 1 show ?thesis by (subst str_nat.simps) simp
  qed
qed

lemma str_nat_inj: "str_nat a = str_nat b \<Longrightarrow> a = b"
proof (induction a arbitrary: b rule: str_nat.induct)
  case (1 a)
  show ?case
  proof (cases "a < 10")
    case a: True
    show ?thesis
    proof (cases "b < 10")
      case True
      with a "1.prems" have "digit_char a = digit_char b"
        by (simp add: str_nat.simps [of a] str_nat.simps [of b])
      with a True show ?thesis by (rule digit_char_inj)
    next
      case False
      with a "1.prems" show ?thesis
        using str_nat_nonempty [of "b div 10"]
        by (simp add: str_nat.simps [of a] str_nat.simps [of b])
    qed
  next
    case a: False
    show ?thesis
    proof (cases "b < 10")
      case True
      with a "1.prems" show ?thesis
        using str_nat_nonempty [of "a div 10"]
        by (simp add: str_nat.simps [of a] str_nat.simps [of b])
    next
      case False
      with a "1.prems" have eq: "str_nat (a div 10) = str_nat (b div 10)"
        and d: "digit_char (a mod 10) = digit_char (b mod 10)"
        by (simp_all add: str_nat.simps [of a] str_nat.simps [of b])
      from "1.IH" [OF a eq] have q: "a div 10 = b div 10" .
      have "a mod 10 < 10" "b mod 10 < 10" by simp_all
      from digit_char_inj [OF this d] have r: "a mod 10 = b mod 10" .
      have "a = 10 * (a div 10) + a mod 10" by simp
      also have "\<dots> = 10 * (b div 10) + b mod 10" using q r by simp
      also have "\<dots> = b" by simp
      finally show ?thesis .
    qed
  qed
qed

lemma str_nat_no_char: "c \<notin> set ''0123456789'' \<Longrightarrow> c \<notin> set (str_nat n)"
  using str_nat_digits [of n] by blast

lemma str_nat_no_dash: "str_nat n \<noteq> CHR ''-'' # s"
proof
  assume "str_nat n = CHR ''-'' # s"
  then have "CHR ''-'' \<in> set (str_nat n)" by simp
  moreover have "CHR ''-'' \<notin> set (str_nat n)" by (rule str_nat_no_char) simp
  ultimately show False by simp
qed

lemma str_int_no_char:
  assumes "c \<notin> set ''0123456789''" and "c \<noteq> CHR ''-''"
  shows "c \<notin> set (str_int i)"
proof (cases "i < 0")
  case True
  with assms str_nat_no_char [OF assms(1), of "nat (- i)"] show ?thesis
    by (simp add: str_int_def)
next
  case False
  with str_nat_no_char [OF assms(1), of "nat i"] show ?thesis
    by (simp add: str_int_def)
qed

lemma str_int_inj: "str_int a = str_int b \<Longrightarrow> a = b"
proof -
  assume eq: "str_int a = str_int b"
  show "a = b"
  proof (cases "a < 0"; cases "b < 0")
    assume neg: "a < 0" "b < 0"
    with eq have "str_nat (nat (- a)) = str_nat (nat (- b))" by (simp add: str_int_def)
    then have "nat (- a) = nat (- b)" by (rule str_nat_inj)
    with neg show ?thesis by simp
  next
    assume "a < 0" "\<not> b < 0"
    with eq have "str_nat (nat b) = CHR ''-'' # str_nat (nat (- a))" by (simp add: str_int_def)
    with str_nat_no_dash show ?thesis by blast
  next
    assume "\<not> a < 0" "b < 0"
    with eq have "str_nat (nat a) = CHR ''-'' # str_nat (nat (- b))" by (simp add: str_int_def)
    with str_nat_no_dash show ?thesis by blast
  next
    assume pos: "\<not> a < 0" "\<not> b < 0"
    with eq have "str_nat (nat a) = str_nat (nat b)" by (simp add: str_int_def)
    then have "nat a = nat b" by (rule str_nat_inj)
    with pos show ?thesis by simp
  qed
qed

lemma join_str_snoc:
  "join_str sep (xs @ [x]) = (if xs = [] then x else join_str sep xs @ sep @ x)"
  by (induction sep xs rule: join_str.induct) auto

lemma join_str_chars:
  "c \<notin> set sep \<Longrightarrow> list_all (\<lambda>x. c \<notin> set x) xs \<Longrightarrow> c \<notin> set (join_str sep xs)"
  by (induction sep xs rule: join_str.induct) auto

lemma cut_suffix:
  assumes "length s1 = length s2"
    and "list_all (\<lambda>x. CHR ''_'' \<notin> set x) s1" "list_all (\<lambda>x. CHR ''_'' \<notin> set x) s2"
    and "v1 @ ''_'' @ join_str ''_'' s1 = v2 @ ''_'' @ join_str ''_'' s2"
  shows "v1 = v2 \<and> s1 = s2"
  using assms
proof (induction s1 arbitrary: s2 rule: rev_induct)
  case Nil
  then show ?case by simp
next
  case (snoc x xs)
  from snoc.prems(1) obtain y ys where s2: "s2 = ys @ [y]"
    by (cases s2 rule: rev_cases) auto
  with snoc.prems have len: "length xs = length ys"
    and ux: "CHR ''_'' \<notin> set x" and uy: "CHR ''_'' \<notin> set y"
    and uxs: "list_all (\<lambda>x. CHR ''_'' \<notin> set x) xs" and uys: "list_all (\<lambda>x. CHR ''_'' \<notin> set x) ys"
    by simp_all
  show ?case
  proof (cases "xs = []")
    case True
    with len have "ys = []" by simp
    with True snoc.prems(4) s2 have "v1 @ CHR ''_'' # x = v2 @ CHR ''_'' # y" by simp
    from cut_at_last [OF ux uy this] True \<open>ys = []\<close> s2 show ?thesis by simp
  next
    case False
    with len have "ys \<noteq> []" by auto
    with False snoc.prems(4) s2
    have "(v1 @ ''_'' @ join_str ''_'' xs) @ CHR ''_'' # x = (v2 @ ''_'' @ join_str ''_'' ys) @ CHR ''_'' # y"
      by (simp add: join_str_snoc)
    from cut_at_last [OF ux uy this]
    have "x = y" and "v1 @ ''_'' @ join_str ''_'' xs = v2 @ ''_'' @ join_str ''_'' ys" by simp_all
    with snoc.IH [OF len uxs uys] s2 show ?thesis by simp
  qed
qed

lemma get_path_unfold:
  "get_path p index yr variable =
     (case year_used p yr of
        Some y \<Rightarrow> dataset_id p @ ''/'' @ y @ ''/'' @ variable_used p variable @ ''_'' @ y @ ''_''
                    @ tile_suffix index @ ''.tif''
      | None \<Rightarrow> dataset_id p @ ''/'' @ variable_used p variable @ ''_'' @ tile_suffix index @ ''.tif'')"
  by (simp add: get_path_def year_used_def variable_used_def tile_suffix_def Let_def
      split: option.splits)

lemma str_int_no_underscore: "CHR ''_'' \<notin> set (str_int i)"
  by (rule str_int_no_char) simp_all

lemma str_int_no_slash: "CHR ''/'' \<notin> set (str_int i)"
  by (rule str_int_no_char) simp_all

lemma components_no_underscore: "list_all (\<lambda>x. CHR ''_'' \<notin> set x) (map str_int index)"
  by (simp add: list_all_iff str_int_no_underscore)

lemma tile_suffix_no_slash: "CHR ''/'' \<notin> set (tile_suffix index)"
  unfolding tile_suffix_def
  by (rule join_str_chars) (simp_all add: list_all_iff str_int_no_slash)

lemma tile_suffix_cut:
  assumes "length i1 = length i2"
    and "v1 @ ''_'' @ tile_suffix i1 = v2 @ ''_'' @ tile_suffix i2"
  shows "v1 = v2 \<and> i1 = i2"
proof -
  have "length (map str_int i1) = length (map str_int i2)" using assms(1) by simp
  from cut_suffix [OF this components_no_underscore components_no_underscore]
    assms(2)
  have "v1 = v2" and m: "map str_int i1 = map str_int i2"
    unfolding tile_suffix_def by blast+
  have "inj str_int" by (rule injI) (rule str_int_inj)
  with m have "i1 = i2" by simp
  with \<open>v1 = v2\<close> show ?thesis by simp
qed

lemma same_year_paths:
  assumes len: "length i1 = length i2"
    and eq: "w1 @ ''_'' @ y @ ''_'' @ tile_suffix i1 @ ''.tif'' = w2 @ ''_'' @ y @ ''_'' @ tile_suffix i2 @ ''.tif''"
  shows "w1 = w2 \<and> i1 = i2"
proof -
  from eq have "(w1 @ ''_'' @ y) @ ''_'' @ tile_suffix i1 = (w2 @ ''_'' @ y) @ ''_'' @ tile_suffix i2"
    by simp
  from tile_suffix_cut [OF len this] show ?thesis by simp
qed

text \<open>
  C4, as the code has it: for tile ids with the same number of components (the rows of one
  grid) and years and variables without a slash, two calls of \<^verbatim>\<open>get_path\<close> return the
  same path only when they agree on the tile id, on the year that is printed and on the
  variable that is printed. The defaults are applied first: a call that leaves the year or
  the variable out returns the path of the call that passes the default.
\<close>

theorem get_path_injective:
  assumes len: "length i1 = length i2"
    and y1: "slash_free_year (year_used p yr1)" and y2: "slash_free_year (year_used p yr2)"
    and v1: "slash_free (variable_used p var1)" and v2: "slash_free (variable_used p var2)"
    and eq: "get_path p i1 yr1 var1 = get_path p i2 yr2 var2"
  shows "i1 = i2 \<and> year_used p yr1 = year_used p yr2 \<and> variable_used p var1 = variable_used p var2"
proof (cases "year_used p yr1")
  case None
  note n1 = None
  show ?thesis
  proof (cases "year_used p yr2")
    case None
    with n1 eq have "variable_used p var1 @ ''_'' @ tile_suffix i1 = variable_used p var2 @ ''_'' @ tile_suffix i2"
      by (simp add: get_path_unfold)
    from tile_suffix_cut [OF len this] n1 None show ?thesis by simp
  next
    case (Some b)
    with n1 eq have e: "variable_used p var1 @ ''_'' @ tile_suffix i1 @ ''.tif''
        = b @ ''/'' @ variable_used p var2 @ ''_'' @ b @ ''_'' @ tile_suffix i2 @ ''.tif''"
      by (simp add: get_path_unfold)
    have "CHR ''/'' \<notin> set (variable_used p var1 @ ''_'' @ tile_suffix i1 @ ''.tif'')"
      using v1 tile_suffix_no_slash [of i1] by (simp add: slash_free_def)
    moreover have "CHR ''/'' \<in> set (b @ ''/'' @ variable_used p var2 @ ''_'' @ b @ ''_'' @ tile_suffix i2 @ ''.tif'')"
      by simp
    ultimately show ?thesis using e by metis
  qed
next
  case (Some a)
  note s1 = Some
  show ?thesis
  proof (cases "year_used p yr2")
    case None
    with s1 eq have e: "a @ ''/'' @ variable_used p var1 @ ''_'' @ a @ ''_'' @ tile_suffix i1 @ ''.tif''
        = variable_used p var2 @ ''_'' @ tile_suffix i2 @ ''.tif''"
      by (simp add: get_path_unfold)
    have "CHR ''/'' \<notin> set (variable_used p var2 @ ''_'' @ tile_suffix i2 @ ''.tif'')"
      using v2 tile_suffix_no_slash [of i2] by (simp add: slash_free_def)
    moreover have "CHR ''/'' \<in> set (a @ ''/'' @ variable_used p var1 @ ''_'' @ a @ ''_'' @ tile_suffix i1 @ ''.tif'')"
      by simp
    ultimately show ?thesis using e by metis
  next
    case (Some b)
    from y1 s1 have fa: "CHR ''/'' \<notin> set a" by (simp add: slash_free_year_def slash_free_def)
    from y2 Some have fb: "CHR ''/'' \<notin> set b" by (simp add: slash_free_year_def slash_free_def)
    from s1 Some eq
    have "a @ CHR ''/'' # (variable_used p var1 @ ''_'' @ a @ ''_'' @ tile_suffix i1 @ ''.tif'')
        = b @ CHR ''/'' # (variable_used p var2 @ ''_'' @ b @ ''_'' @ tile_suffix i2 @ ''.tif'')"
      by (simp add: get_path_unfold)
    note c = cut_at_first [OF fa fb this]
    have ab: "a = b" by (rule c [THEN conjunct1])
    have r: "variable_used p var1 @ ''_'' @ a @ ''_'' @ tile_suffix i1 @ ''.tif''
            = variable_used p var2 @ ''_'' @ b @ ''_'' @ tile_suffix i2 @ ''.tif''"
      by (rule c [THEN conjunct2])
    from r ab have "variable_used p var1 @ ''_'' @ a @ ''_'' @ tile_suffix i1 @ ''.tif''
            = variable_used p var2 @ ''_'' @ a @ ''_'' @ tile_suffix i2 @ ''.tif''" by simp
    from same_year_paths [OF len this] ab s1 Some show ?thesis by simp
  qed
qed

theorem get_path_injective_witness:
  "get_path ndvi_2020 [12, 60] (Some ''2020'') (Some ''ndvi'')
     = get_path ndvi_2020 [12, 60] None None
   \<and> year_used ndvi_2020 None = year_used ndvi_2020 (Some ''2020'')
   \<and> variable_used ndvi_2020 None = variable_used ndvi_2020 (Some ''ndvi'')"
proof -
  have e: "get_path ndvi_2020 [12, 60] (Some ''2020'') (Some ''ndvi'')
      = get_path ndvi_2020 [12, 60] None None"
    by (simp add: get_path_def ndvi_2020_def new_processor_def)
  have s: "slash_free_year (year_used ndvi_2020 (Some ''2020''))"
    "slash_free_year (year_used ndvi_2020 None)"
    "slash_free (variable_used ndvi_2020 (Some ''ndvi''))"
    "slash_free (variable_used ndvi_2020 None)"
    by (simp_all add: slash_free_year_def slash_free_def year_used_def variable_used_def
        ndvi_2020_def new_processor_def)
  have "length [12, 60 :: int] = length [12, 60 :: int]" by simp
  from get_path_injective [OF this s e] e show ?thesis by simp
qed

text \<open>
  C4 as stated fails: the inputs (tile, no year, no variable) and (tile, 2020, ndvi) are
  distinct, and the processor for dataset ndvi and year 2020 gives both the same path.
\<close>

theorem get_path_collision:
  "get_path ndvi_2020 [12, 60] None None = ''ndvi/2020/ndvi_2020_12_60.tif''
   \<and> get_path ndvi_2020 [12, 60] (Some ''2020'') (Some ''ndvi'') = ''ndvi/2020/ndvi_2020_12_60.tif''
   \<and> ([12, 60 :: int], None :: string option, None :: string option)
       \<noteq> ([12, 60], Some ''2020'', Some ''ndvi'')"
  by (simp add: get_path_def ndvi_2020_def new_processor_def str_int_def str_nat.simps
      digit_char_def)

subsection \<open>Quantization\<close>

lemma sint_to_int16:
  "- 32768 \<le> k \<Longrightarrow> k \<le> 32767 \<Longrightarrow> sint (to_int16 k) = k"
  unfolding to_int16_def
  by (simp add: int_word_sint)

lemma quantize_finite_value:
  "- 32768 \<le> round (v * of_int m) \<Longrightarrow> round (v * of_int m) \<le> 32767 \<Longrightarrow>
   sint (quantize m s (Finite v)) = round (v * of_int m)"
  by (auto simp add: quantize_def Let_def sint_to_int16)

lemma decode_error:
  fixes v :: real
  assumes "0 < m"
  shows "\<bar>of_int (round (v * of_int m)) / of_int m - v\<bar> \<le> 1 / of_int m"
proof -
  have m: "(0::real) < of_int m" using assms by simp
  have "\<bar>of_int (round (v * of_int m)) - v * of_int m\<bar> \<le> (1::real) / 2"
    by (rule of_int_round_abs_le)
  then have "\<bar>of_int (round (v * of_int m)) - v * of_int m\<bar> \<le> (1::real)" by linarith
  moreover have "of_int (round (v * of_int m)) / of_int m - v
      = (of_int (round (v * of_int m)) - v * of_int m) / of_int m"
    using m by (simp add: field_simps)
  ultimately show ?thesis using m by (simp add: divide_right_mono del: of_int_diff)
qed

text \<open>
  C3: with a positive multiplier \<open>m\<close> and the sentinel \<open>s\<close>, a finite value \<open>v\<close> whose
  scaled and rounded value fits a signed 16-bit integer is quantized to an integer that,
  divided by \<open>m\<close>, differs from \<open>v\<close> by at most \<open>1 / m\<close>; a NaN, an input nodata and any
  value whose quantization collides with the sentinel are all mapped to the sentinel itself.
\<close>

theorem quantize_round_trip:
  assumes "0 < m" and "- 32768 \<le> round (v * of_int m)" and "round (v * of_int m) \<le> 32767"
  shows "\<bar>decode m (quantize m s (Finite v)) - v\<bar> \<le> 1 / of_int m
       \<and> quantize m s NaN = to_int16 s
       \<and> quantize m s NoData = to_int16 s
       \<and> (to_int16 (round (w * of_int k)) = to_int16 s \<longrightarrow> quantize k s (Finite w) = to_int16 s)"
  using assms decode_error [OF assms(1), of v]
  by (simp add: decode_def quantize_finite_value) (simp add: quantize_def)

theorem quantize_round_trip_witness:
  "\<bar>decode 10000 (quantize 10000 (- 32767) (Finite 0.12344)) - 0.12344\<bar> \<le> 1 / 10000
   \<and> sint (quantize 10000 (- 32767) (Finite 0.12344)) = 1234
   \<and> sint (quantize 10000 (- 32767) NaN) = - 32767
   \<and> sint (quantize 10000 (- 32767) NoData) = - 32767
   \<and> sint (quantize 10000 (- 32767) (Finite (- 3.2767))) = - 32767"
proof -
  have r: "round (0.12344 * of_int 10000 :: real) = 1234" by (simp add: round_def)
  have c: "round (- 3.2767 * of_int 10000 :: real) = - 32767" by (simp add: round_def)
  show ?thesis
    using quantize_round_trip [of 10000 "0.12344" "- 32767" "- 3.2767" 10000] r c
    by (simp add: quantize_def to_int16_def)
qed

subsection \<open>The loop over the tiles\<close>

lemmas demo_defs = failing_env_def demo_env_def ndvi_2020_def new_processor_def landsat_grid_def
  empty_state_def ndvi_result_def

lemmas run_defs = process_by_scene_def process_tile_def tile_stack_def tile_search_def
  get_stack_def loc_rows_def dict_get_def bind_result_def kwargs_sent_def tile_artifacts_def
  output_artifacts_def
  decompose_def artifacts_def flatten_def rename_joined_def squeeze_def with_shape_def
  join_name_def
  write_to_blob_storage_def get_path_def str_int_def str_nat.simps digit_char_def

lemma write_to_blob_storage_frame:
  "write_to_blob_storage env d path wa ow st = (r, st') \<Longrightarrow>
     stdout st' = stdout st \<and> scene_processor_kwargs st' = scene_processor_kwargs st
     \<and> local_files st' = local_files st"
  by (auto simp add: write_to_blob_storage_def split: if_splits option.splits)

lemma write_all_frame:
  "write_all env p arts st = (r, st') \<Longrightarrow>
     stdout st' = stdout st \<and> scene_processor_kwargs st' = scene_processor_kwargs st
     \<and> local_files st' = local_files st"
proof (induction arts arbitrary: st)
  case Nil
  then show ?case by simp
next
  case (Cons a arts)
  obtain r1 st1 where w: "write_to_blob_storage env (snd a) (fst a) (''COG'', ''LZW'') (overwrite p) st = (r1, st1)"
    by (cases "write_to_blob_storage env (snd a) (fst a) (''COG'', ''LZW'') (overwrite p) st")
  note f = write_to_blob_storage_frame [OF w]
  show ?case
  proof (cases r1)
    case None
    with w Cons.prems have "write_all env p arts st1 = (r, st')" by simp
    from Cons.IH [OF this] f show ?thesis by simp
  next
    case (Some e)
    with w Cons.prems have "st' = st1" by simp
    with f show ?thesis by simp
  qed
qed

lemma process_tile_stdout:
  "process_tile env p index st = (r, st') \<Longrightarrow> stdout st' = stdout st @ [index]"
  by (auto simp add: process_tile_def Let_def dest!: write_all_frame
      split: sum.splits option.splits)

lemma process_tiles_append:
  "process_tiles env p (xs @ ys) st =
     (case process_tiles env p xs st of
        (Some e, st') \<Rightarrow> (Some e, st')
      | (None, st') \<Rightarrow> process_tiles env p ys st')"
  by (induction xs arbitrary: st) (auto split: prod.splits option.splits)

text \<open>
  C1, as the code has it: nothing in the loop catches an exception. When the tiles before a
  tile have been processed and that tile raises, \<^verbatim>\<open>process_by_scene\<close> ends with that
  exception in the state the tile had reached; the tiles after it are not processed. The
  identifier of the tile is the last line printed, since each iteration prints it first.
\<close>

theorem exception_aborts_run:
  assumes "process_tiles env p done st = (None, st1)"
    and "process_tile env p index st1 = (Some e, st2)"
  shows "process_tiles env p (done @ index # rest) st = (Some e, st2)
       \<and> stdout st2 = stdout st1 @ [index]"
  using assms process_tile_stdout [OF assms(2)]
  by (simp add: process_tiles_append)

theorem exception_aborts_run_witness:
  "process_tiles failing_env ndvi_2020 ([] @ [12, 60] # [[10, 50]]) empty_state
     = (Some (Raised ''read failed''), empty_state\<lparr>stdout := [[12, 60]]\<rparr>)
   \<and> stdout (empty_state\<lparr>stdout := [[12, 60]]\<rparr>) = stdout empty_state @ [[12, 60]]"
proof -
  have a: "process_tiles failing_env ndvi_2020 [] empty_state = (None, empty_state)" by simp
  have b: "process_tile failing_env ndvi_2020 [12, 60] empty_state
      = (Some (Raised ''read failed''), empty_state\<lparr>stdout := [[12, 60]]\<rparr>)"
    by (simp add: demo_defs run_defs)
  from exception_aborts_run [OF a b] show ?thesis .
qed

text \<open>
  C1 as stated fails: with a scene for each of the two tiles and a stack that cannot be built
  for the first, the run ends with the exception after the first tile. The second tile,
  which is written when processed alone, is neither printed nor written.
\<close>

theorem exception_not_caught:
  "process_by_scene failing_env ndvi_2020 empty_state
     = (Some (Raised ''read failed''), empty_state\<lparr>stdout := [[12, 60]]\<rparr>)
   \<and> process_tile failing_env ndvi_2020 [10, 50] empty_state
     = (None, empty_state
          \<lparr>stdout := [[10, 50]],
           blobs := [(''ndvi/2020/ndvi_2020_10_50.tif'',
                      RasterBlob (Dataset [(''y'', [LInt 0, LInt 30]), (''x'', [LInt 0, LInt 30])]
                                    [] [''2020_ndvi'']) ''COG'' ''LZW'')],
           uploads := [''ndvi/2020/ndvi_2020_10_50.tif'']\<rparr>)"
  by (simp add: demo_defs run_defs)

subsection \<open>Skipped tiles\<close>

lemma tile_stack_no_scenes: "tile_search env p index = Inr [] \<Longrightarrow> tile_stack env p index = Inr None"
  by (simp add: tile_stack_def bind_result_def)

lemma process_tile_kwargs:
  "scene_processor_kwargs (snd (process_tile env p index st)) =
     (case tile_stack env p index of
        Inr (Some item_xr) \<Rightarrow> kwargs_sent p index (scene_processor_kwargs st)
      | _ \<Rightarrow> scene_processor_kwargs st)"
proof -
  obtain r st' where w: "process_tile env p index st = (r, st')"
    by (cases "process_tile env p index st")
  then show ?thesis
    by (auto simp add: process_tile_def Let_def dest!: write_all_frame
        split: sum.splits option.splits)
qed

text \<open>
  C7: a tile whose scene search returns an empty collection, and a tile whose transform
  returns \<^verbatim>\<open>None\<close>, is skipped: the iteration ends without an error, the container holds
  what it held and the storage service received nothing, and the loop goes on with the
  remaining tiles.
\<close>

theorem skipped_tiles_write_nothing:
  assumes "tile_search env p index = Inr []
     \<or> (tile_stack env p index = Inr (Some item_xr)
        \<and> scene_processor p item_xr (kwargs_sent p index (scene_processor_kwargs st)) = Inr None)"
  shows "fst (process_tile env p index st) = None
       \<and> blobs (snd (process_tile env p index st)) = blobs st
       \<and> uploads (snd (process_tile env p index st)) = uploads st
       \<and> process_tiles env p (index # rest) st
           = process_tiles env p rest (snd (process_tile env p index st))"
  using assms
proof
  assume "tile_search env p index = Inr []"
  then have "tile_stack env p index = Inr None" by (rule tile_stack_no_scenes)
  then show ?thesis by (simp add: process_tile_def)
next
  assume "tile_stack env p index = Inr (Some item_xr)
        \<and> scene_processor p item_xr (kwargs_sent p index (scene_processor_kwargs st)) = Inr None"
  then show ?thesis by (simp add: process_tile_def Let_def)
qed

theorem skipped_tiles_write_nothing_witness:
  "fst (process_tile demo_env ndvi_2020 [10, 50] empty_state) = None
   \<and> blobs (snd (process_tile demo_env ndvi_2020 [10, 50] empty_state)) = blobs empty_state
   \<and> uploads (snd (process_tile demo_env ndvi_2020 [10, 50] empty_state)) = uploads empty_state
   \<and> process_tiles demo_env ndvi_2020 ([10, 50] # []) empty_state
       = process_tiles demo_env ndvi_2020 [] (snd (process_tile demo_env ndvi_2020 [10, 50] empty_state))
   \<and> fst (process_tile demo_env no_result [12, 60] empty_state) = None
   \<and> blobs (snd (process_tile demo_env no_result [12, 60] empty_state)) = blobs empty_state
   \<and> uploads (snd (process_tile demo_env no_result [12, 60] empty_state)) = uploads empty_state"
proof -
  have a: "tile_search demo_env ndvi_2020 [10, 50] = Inr []"
    by (simp add: demo_defs run_defs)
  have b: "tile_stack demo_env no_result [12, 60] = Inr (Some [''LC08_012060''])
      \<and> scene_processor no_result [''LC08_012060'']
          (kwargs_sent no_result [12, 60] (scene_processor_kwargs empty_state)) = Inr None"
    by (simp add: no_result_def demo_defs run_defs)
  from skipped_tiles_write_nothing [where st = empty_state and rest = "[]", OF disjI1, OF a]
       skipped_tiles_write_nothing [where st = empty_state and rest = "[]", OF disjI2, OF b]
  show ?thesis by simp
qed

subsection \<open>The keyword dictionary\<close>









subsection \<open>A second run\<close>

lemma existing_write_is_noop:
  "path \<in> blob_names st \<Longrightarrow> write_to_blob_storage env d path wa False st = (None, st)"
  by (simp add: write_to_blob_storage_def blob_names_def)

lemma blob_names_update:
  "blob_names (st\<lparr>blobs := AList.update path b (blobs st), uploads := u\<rparr>)
     = insert path (blob_names st)"
  by (simp add: blob_names_def dom_update)

lemma write_to_blob_storage_names:
  assumes "write_to_blob_storage env d path wa False st = (None, st1)"
  shows "path \<in> blob_names st1 \<and> blob_names st \<subseteq> blob_names st1"
proof (cases "path \<in> blob_names st")
  case True
  with assms have "st1 = st" by (simp add: existing_write_is_noop)
  with True show ?thesis by simp
next
  case False
  with assms have "st1 = st\<lparr>blobs := AList.update path (RasterBlob d (fst wa) (snd wa)) (blobs st),
                    uploads := uploads st @ [path]\<rparr>"
    by (simp add: write_to_blob_storage_def blob_names_def split: option.splits)
  then show ?thesis by (auto simp only: blob_names_update)
qed

lemma write_all_names:
  assumes "\<not> overwrite p" and "write_all env p arts st = (None, st1)"
  shows "fst ` set arts \<subseteq> blob_names st1 \<and> blob_names st \<subseteq> blob_names st1"
  using assms(2)
proof (induction arts arbitrary: st)
  case Nil
  then show ?case by simp
next
  case (Cons a arts)
  obtain r s where w: "write_to_blob_storage env (snd a) (fst a) (''COG'', ''LZW'') False st = (r, s)"
    by (cases "write_to_blob_storage env (snd a) (fst a) (''COG'', ''LZW'') False st")
  with Cons.prems assms(1) have r: "r = None" and rest: "write_all env p arts s = (None, st1)"
    by (auto split: option.splits)
  from w r write_to_blob_storage_names
  have n: "fst a \<in> blob_names s" "blob_names st \<subseteq> blob_names s" by blast+
  from Cons.IH [OF rest] n show ?case by auto
qed

lemma write_all_noop:
  assumes "\<not> overwrite p" and "fst ` set arts \<subseteq> blob_names t"
  shows "write_all env p arts t = (None, t)"
  using assms(2)
  by (induction arts) (simp_all add: assms(1) existing_write_is_noop)

lemma same_calls_refl: "same_calls p kw kw"
  by (simp add: same_calls_def)

lemma same_calls_sent: "same_calls p kw (kwargs_sent p index kw)"
  by (simp add: same_calls_def kwargs_sent_def)

lemma same_calls_trans: "same_calls p a b \<Longrightarrow> same_calls p b c \<Longrightarrow> same_calls p a c"
  by (simp add: same_calls_def)

lemma process_tile_same_calls:
  "same_calls p (scene_processor_kwargs st) (scene_processor_kwargs (snd (process_tile env p index st)))"
  by (simp add: process_tile_kwargs same_calls_refl same_calls_sent split: sum.splits option.splits)

lemma process_tiles_same_calls:
  "same_calls p (scene_processor_kwargs st) (scene_processor_kwargs (snd (process_tiles env p tiles st)))"
proof (induction tiles arbitrary: st)
  case Nil
  then show ?case by (simp add: same_calls_refl)
next
  case (Cons index tiles)
  obtain r st1 where w: "process_tile env p index st = (r, st1)"
    by (cases "process_tile env p index st")
  from process_tile_same_calls [of p st env index] w
  have a: "same_calls p (scene_processor_kwargs st) (scene_processor_kwargs st1)" by simp
  show ?case
  proof (cases r)
    case None
    with w same_calls_trans [OF a Cons.IH [of st1]] show ?thesis by simp
  next
    case (Some e)
    with w a show ?thesis by simp
  qed
qed

lemma process_tile_names:
  assumes "\<not> overwrite p" and "process_tile env p index st = (None, st1)"
  shows "blob_names st \<subseteq> blob_names st1"
proof (cases "tile_stack env p index")
  case (Inl e)
  with assms(2) show ?thesis by (simp add: process_tile_def)
next
  case (Inr so)
  show ?thesis
  proof (cases so)
    case None
    with Inr assms(2) show ?thesis by (auto simp add: process_tile_def blob_names_def)
  next
    case (Some x)
    let ?st2 = "st\<lparr>stdout := stdout st @ [index],
                   scene_processor_kwargs := kwargs_sent p index (scene_processor_kwargs st)\<rparr>"
    have n2: "blob_names ?st2 = blob_names st" by (simp add: blob_names_def)
    show ?thesis
    proof (cases "scene_processor p x (kwargs_sent p index (scene_processor_kwargs st))")
      case (Inl e)
      with Inr Some assms(2) show ?thesis by (simp add: process_tile_def)
    next
      case tr: (Inr ro)
      show ?thesis
      proof (cases ro)
        case None
        with tr Inr Some assms(2) have "st1 = ?st2" by (simp add: process_tile_def)
        with n2 show ?thesis by simp
      next
        case r: (Some r)
        show ?thesis
        proof (cases "tile_artifacts env p index r")
          case (Inl e)
          with r tr Inr Some assms(2) show ?thesis by (simp add: process_tile_def)
        next
          case arts: (Inr arts)
          with r tr Inr Some assms(2) have "write_all env p arts ?st2 = (None, st1)"
            by (simp add: process_tile_def)
          from write_all_names [OF assms(1) this] n2 show ?thesis by simp
        qed
      qed
    qed
  qed
qed


lemma process_tile_ok_cases:
  assumes "process_tile env p index st = (None, st1)"
  obtains
    (no_scenes) "tile_stack env p index = Inr None" "st1 = st\<lparr>stdout := stdout st @ [index]\<rparr>"
  | (no_result) x where "tile_stack env p index = Inr (Some x)"
      "scene_processor p x (kwargs_sent p index (scene_processor_kwargs st)) = Inr None"
      "st1 = st\<lparr>stdout := stdout st @ [index],
                scene_processor_kwargs := kwargs_sent p index (scene_processor_kwargs st)\<rparr>"
  | (written) x r arts where "tile_stack env p index = Inr (Some x)"
      "scene_processor p x (kwargs_sent p index (scene_processor_kwargs st)) = Inr (Some r)"
      "tile_artifacts env p index r = Inr arts"
      "write_all env p arts
         (st\<lparr>stdout := stdout st @ [index],
             scene_processor_kwargs := kwargs_sent p index (scene_processor_kwargs st)\<rparr>)
       = (None, st1)"
  using assms
  by (auto simp add: process_tile_def Let_def split: sum.splits option.splits)

lemma process_tile_again:
  assumes ow: "\<not> overwrite p" and run: "process_tile env p index st = (None, st1)"
    and calls: "same_calls p (scene_processor_kwargs st) (scene_processor_kwargs t)"
    and names: "blob_names st1 \<subseteq> blob_names t"
  shows "fst (process_tile env p index t) = None
       \<and> blobs (snd (process_tile env p index t)) = blobs t
       \<and> uploads (snd (process_tile env p index t)) = uploads t
       \<and> same_calls p (scene_processor_kwargs st1)
            (scene_processor_kwargs (snd (process_tile env p index t)))"
proof -
  let ?t2 = "t\<lparr>stdout := stdout t @ [index],
               scene_processor_kwargs := kwargs_sent p index (scene_processor_kwargs t)\<rparr>"
  from calls have kw: "kwargs_sent p index (scene_processor_kwargs t)
      = kwargs_sent p index (scene_processor_kwargs st)"
    by (simp add: same_calls_def)
  from run show ?thesis
  proof (cases rule: process_tile_ok_cases)
    case no_scenes
    with calls show ?thesis by (simp add: process_tile_def)
  next
    case (no_result x)
    then show ?thesis by (simp add: process_tile_def kw same_calls_refl)
  next
    case (written x r arts)
    have "blob_names ?t2 = blob_names t" by (simp add: blob_names_def)
    with write_all_names [OF ow written(4)] names
    have "fst ` set arts \<subseteq> blob_names ?t2" by blast
    from write_all_noop [OF ow this]
    have w: "write_all env p arts ?t2 = (None, ?t2)" .
    from write_all_frame [OF written(4)]
    have "scene_processor_kwargs st1 = kwargs_sent p index (scene_processor_kwargs st)" by simp
    with written(1,2,3) w show ?thesis
      by (simp add: process_tile_def kw same_calls_refl)
  qed
qed

lemma process_tiles_names:
  assumes "\<not> overwrite p" and "process_tiles env p tiles st = (None, st1)"
  shows "blob_names st \<subseteq> blob_names st1"
  using assms(2)
proof (induction tiles arbitrary: st)
  case Nil
  then show ?case by simp
next
  case (Cons index tiles)
  obtain r s where w: "process_tile env p index st = (r, s)"
    by (cases "process_tile env p index st")
  with Cons.prems have r: "r = None" and rest: "process_tiles env p tiles s = (None, st1)"
    by (auto split: option.splits)
  from process_tile_names [OF assms(1)] w r have "blob_names st \<subseteq> blob_names s" by blast
  with Cons.IH [OF rest] show ?case by blast
qed

lemma process_tiles_again:
  assumes ow: "\<not> overwrite p" and run: "process_tiles env p tiles st = (None, st1)"
    and calls: "same_calls p (scene_processor_kwargs st) (scene_processor_kwargs t)"
    and names: "blob_names st1 \<subseteq> blob_names t"
  shows "fst (process_tiles env p tiles t) = None
       \<and> blobs (snd (process_tiles env p tiles t)) = blobs t
       \<and> uploads (snd (process_tiles env p tiles t)) = uploads t"
  using run calls names
proof (induction tiles arbitrary: st t)
  case Nil
  then show ?case by simp
next
  case (Cons index tiles)
  obtain r s where w: "process_tile env p index st = (r, s)"
    by (cases "process_tile env p index st")
  with Cons.prems(1) have r: "r = None" and rest: "process_tiles env p tiles s = (None, st1)"
    by (auto split: option.splits)
  from w r have ws: "process_tile env p index st = (None, s)" by simp
  from process_tiles_names [OF ow rest] Cons.prems(3) have "blob_names s \<subseteq> blob_names t" by blast
  note again = process_tile_again [OF ow ws Cons.prems(2) this]
  obtain t1 where t1: "process_tile env p index t = (None, t1)"
    using again by (cases "process_tile env p index t") auto
  with again have b: "blobs t1 = blobs t" and u: "uploads t1 = uploads t"
    and c: "same_calls p (scene_processor_kwargs s) (scene_processor_kwargs t1)" by simp_all
  from b Cons.prems(3) have "blob_names st1 \<subseteq> blob_names t1" by (simp add: blob_names_def)
  from Cons.IH [OF rest c this] t1 b u show ?case by simp
qed

text \<open>
  C6: with \<^verbatim>\<open>overwrite\<close> false, a second run of \<^verbatim>\<open>process_by_scene\<close> on the state the
  first run left (the same grid, collaborators and transform) ends without an error and
  writes nothing: the container is unchanged and the storage service receives no upload.
  A write to a destination that exists is a no-op that leaves the state as it is.
\<close>

theorem second_run_writes_nothing:
  assumes "\<not> overwrite p" and "process_by_scene env p st = (None, st1)"
  shows "fst (process_by_scene env p st1) = None
       \<and> blobs (snd (process_by_scene env p st1)) = blobs st1
       \<and> uploads (snd (process_by_scene env p st1)) = uploads st1
       \<and> (path \<in> set (map fst (blobs st1)) \<longrightarrow>
            write_to_blob_storage env d path write_args (overwrite p) st1 = (None, st1))"
proof -
  from assms(2) have run: "process_tiles env p (map fst (grid_rows (aoi_by_tile p))) st = (None, st1)"
    by (simp add: process_by_scene_def)
  from process_tiles_same_calls [of p st env "map fst (grid_rows (aoi_by_tile p))"] run
  have c: "same_calls p (scene_processor_kwargs st) (scene_processor_kwargs st1)" by simp
  from process_tiles_again [OF assms(1) run c] existing_write_is_noop [of path st1 env d write_args] assms(1)
  show ?thesis by (simp add: process_by_scene_def blob_names_def)
qed


theorem second_run_writes_nothing_witness:
  "process_by_scene demo_env ndvi_2020 empty_state = (None, first_run)
   \<and> fst (process_by_scene demo_env ndvi_2020 first_run) = None
   \<and> blobs (snd (process_by_scene demo_env ndvi_2020 first_run)) = blobs first_run
   \<and> uploads (snd (process_by_scene demo_env ndvi_2020 first_run))
       = [''ndvi/2020/ndvi_2020_12_60.tif'']
   \<and> write_to_blob_storage demo_env ndvi_result ''ndvi/2020/ndvi_2020_12_60.tif''
        (''COG'', ''LZW'') (overwrite ndvi_2020) first_run = (None, first_run)"
proof -
  have a: "\<not> overwrite ndvi_2020" by (simp add: ndvi_2020_def new_processor_def)
  have b: "process_by_scene demo_env ndvi_2020 empty_state = (None, first_run)"
    by (simp add: first_run_def demo_defs run_defs)
  have c: "''ndvi/2020/ndvi_2020_12_60.tif'' \<in> set (map fst (blobs first_run))"
    by (simp add: first_run_def empty_state_def)
  have d: "uploads first_run = [''ndvi/2020/ndvi_2020_12_60.tif'']"
    by (simp add: first_run_def empty_state_def)
  from second_run_writes_nothing [OF a b, of "''ndvi/2020/ndvi_2020_12_60.tif''" ndvi_result "(''COG'', ''LZW'')"]
    b c d
  show ?thesis by simp
qed

subsection \<open>Dimensional decomposition\<close>



















text \<open>
  The same operations on unusual shapes: a dimension \<^verbatim>\<open>z\<close> that \<^verbatim>\<open>stack\<close> cannot
  create again, no dimension \<^verbatim>\<open>time\<close>, a time label that occurs twice (the axis
  \<^verbatim>\<open>z\<close> stays), a scalar coordinate \<^verbatim>\<open>z\<close> (dropped), and a dataset with a dimension
  \<^verbatim>\<open>variable\<close> of its own (gone after the selection).
\<close>

lemma unusual_shapes:
  "flatten [(''time'', [LStr ''2020'']), (''y'', [LInt 0, LInt 30]), (''z'', [LInt 0, LInt 30])]
     [] [''ndvi''] = Inl ValueError"
  "flatten [(''band'', [LInt 1, LInt 2]), (''y'', [LInt 0, LInt 30]), (''x'', [LInt 0, LInt 30])]
     [] [''ndvi''] = Inl KeyError"
  "flatten [(''time'', [LStr ''2020'', LStr ''2020'']), (''y'', [LInt 0, LInt 30]),
            (''x'', [LInt 0, LInt 30])] [] [''ndvi'']
     = Inr (Dataset [(''y'', [LInt 0, LInt 30]), (''x'', [LInt 0, LInt 30]),
                     (''z'', [LInt 0, LInt 1])] [] [''2020_ndvi''])"
  "flatten [(''time'', [LStr ''2020'']), (''y'', [LInt 0, LInt 30]), (''x'', [LInt 0, LInt 30])]
     [(''z'', LInt 5)] [''ndvi'']
     = Inr (Dataset [(''y'', [LInt 0, LInt 30]), (''x'', [LInt 0, LInt 30])] [] [''2020_ndvi''])"
  "split_variables (Dataset [(''variable'', [LStr ''a'', LStr ''b'']), (''x'', [LInt 0, LInt 30])]
                      [(''time'', LStr ''2020'')] [''ndvi'', ''evi''])
     = Inr [DataArray [(''x'', [LInt 0, LInt 30])]
              [(''time'', LStr ''2020''), (''variable'', LStr ''ndvi'')],
            DataArray [(''x'', [LInt 0, LInt 30])]
              [(''time'', LStr ''2020''), (''variable'', LStr ''evi'')]]"
  by (simp_all add: flatten_def rename_joined_def positions_def join_name_def bind_result_def
      split_variables_def)

subsection \<open>The mosaic\<close>

lemmas tile_defs = mosaic_file_def local_prefix_def prefix_def path_stem_def path_parts_def
  rfind_def dst_name_def is_file_def file_content_def write_file_def gdal2tiles_args_def
  max_zoom_def add_rendered_def remote_path_of_def unlink_def copy_to_blob_storage_def
  below_def rglob_def with_mosaic_def

text \<open>
  C8: the claim has the Mosaic Builder list the artifacts, build the virtual mosaic and
  materialize it whenever the destination is missing or \<^verbatim>\<open>overwrite\<close> is true. The code
  does not get that far: \<^verbatim>\<open>mosaic_scenes\<close> calls \<^verbatim>\<open>build_vrt\<close> without its required
  argument, so in exactly those cases it ends with a \<^verbatim>\<open>TypeError\<close> and the state is
  untouched. Only the other half holds: an existing destination with \<^verbatim>\<open>overwrite\<close> false
  is left as it is.
\<close>

theorem mosaic_scenes_raises:
  "mosaic_scenes env p scale_factor ow st
     = (if \<not> is_file st (mosaic_file p) \<or> ow then (Some TypeError, st) else (None, st))"
  by (simp add: mosaic_scenes_def build_vrt_def)

theorem mosaic_scenes_raises_witness:
  "mosaic_scenes demo_env ndvi_2020 None True with_mosaic = (Some TypeError, with_mosaic)
   \<and> mosaic_scenes demo_env ndvi_2020 None True empty_state = (Some TypeError, empty_state)
   \<and> mosaic_scenes demo_env ndvi_2020 None False with_mosaic = (None, with_mosaic)"
proof -
  have "is_file with_mosaic (mosaic_file ndvi_2020)"
    by (simp add: tile_defs demo_defs)
  with mosaic_scenes_raises [of demo_env ndvi_2020 None True with_mosaic]
    mosaic_scenes_raises [of demo_env ndvi_2020 None True empty_state]
    mosaic_scenes_raises [of demo_env ndvi_2020 None False with_mosaic]
  show ?thesis by simp
qed

subsection \<open>The tile pyramid\<close>

lemma delete_names: "fst ` set (AList.delete k al) = fst ` set al - {k}"
  by (induction al) (auto simp add: AList.delete_eq)

lemma copy_to_blob_storage_result:
  assumes "copy_to_blob_storage env f r st = (None, st1)"
  shows "local_files st1 = local_files st \<and> blob_names st1 = insert r (blob_names st)"
proof -
  from assms obtain src where
    "st1 = st\<lparr>blobs := AList.update r (FileBlob src) (blobs st), uploads := uploads st @ [r]\<rparr>"
    by (auto simp add: copy_to_blob_storage_def split: option.splits)
  then show ?thesis by (simp add: blob_names_update)
qed

lemma upload_tiles_result:
  assumes "upload_tiles env fs st = (None, st1)"
  shows "file_names st1 = file_names st - set fs
       \<and> remote_path_of ` (set fs \<inter> file_names st) \<subseteq> blob_names st1
       \<and> blob_names st \<subseteq> blob_names st1"
  using assms
proof (induction fs arbitrary: st)
  case Nil
  then show ?case by simp
next
  case (Cons f fs)
  show ?case
  proof (cases "f \<in> file_names st")
    case False
    with Cons.prems have "upload_tiles env fs st = (None, st1)" by (simp add: file_names_def)
    from Cons.IH [OF this] False show ?thesis by auto
  next
    case True
    obtain r s where c: "copy_to_blob_storage env f (remote_path_of f) st = (r, s)"
      by (cases "copy_to_blob_storage env f (remote_path_of f) st")
    with True Cons.prems have r: "r = None"
      and rest: "upload_tiles env fs (unlink f s) = (None, st1)"
      by (auto simp add: file_names_def split: option.splits)
    from c r copy_to_blob_storage_result
    have s: "local_files s = local_files st" "blob_names s = insert (remote_path_of f) (blob_names st)"
      by blast+
    have u: "file_names (unlink f s) = file_names st - {f}" "blob_names (unlink f s) = blob_names s"
      using s(1) by (simp_all add: unlink_def file_names_def blob_names_def delete_names)
    from Cons.IH [OF rest] u s(2) show ?thesis by auto
  qed
qed

lemma fold_add_rendered:
  "file_names (fold (add_rendered p) rendered s)
     = file_names s \<union> (\<lambda>t. path_parts (dst_name p) @ fst t) ` set rendered
   \<and> blobs (fold (add_rendered p) rendered s) = blobs s"
proof (induction rendered arbitrary: s)
  case Nil
  then show ?case by simp
next
  case (Cons t rendered)
  have "file_names (add_rendered p t s) = insert (path_parts (dst_name p) @ fst t) (file_names s)"
    "blobs (add_rendered p t s) = blobs s"
    by (simp_all add: add_rendered_def file_names_def dom_update)
  with Cons.IH [of "add_rendered p t s"] show ?case by auto
qed

lemma set_rglob: "set (rglob st dir) = {f \<in> file_names st. below (path_parts dir) f}"
  by (auto simp add: rglob_def file_names_def)

lemma render_tiles_result:
  assumes "gdal_DEMProcessing env (file_content st (mosaic_file p)) (color_ramp_file p) = Inr relief"
    and "gdal2tiles_main env (gdal2tiles_args p (''data/'' @ local_prefix p @ ''_rgb.vrt'')) relief
           = Inr rendered"
  shows "render_tiles env p False st
       = (None, fold (add_rendered p) rendered
                  (write_file st (''data/'' @ local_prefix p @ ''_rgb.vrt'') relief))"
  using assms by (simp add: render_tiles_def)

lemma below_append: "rel \<noteq> [] \<Longrightarrow> below dir (dir @ rel)"
  by (simp add: below_def)

lemma zoom_argument: "gdal2tiles_args p v ! 3 = ''--zoom=0-11''"
  by (simp add: gdal2tiles_args_def max_zoom_def str_int_def str_nat.simps digit_char_def)

lemma remote_path_suffix:
  "4 \<le> length dir \<Longrightarrow> remote_path_of (dir @ rel) = join_str ''/'' (''tiles'' # drop 4 dir @ rel)"
  by (simp add: remote_path_of_def)

text \<open>
  C9, as the code has it, for \<^verbatim>\<open>create_tiles(remake_mosaic=False)\<close> that ends without
  an exception. The renderer is asked for the zoom levels 0 to 11. Every file it returns
  is on the local disk when it returns, so between the rendering and the loop of uploads the
  whole pyramid is on disk. The loop then uploads each file under \<^verbatim>\<open>tiles\<close> followed by the
  parts of its local path from the fifth on (its path below the scratch directory when that
  directory has at least four parts) and deletes it; at the end no file is left below the
  scratch directory.
\<close>

theorem create_tiles_run:
  assumes run: "create_tiles env p False st = (None, st1)"
    and relief: "gdal_DEMProcessing env (file_content st (mosaic_file p)) (color_ramp_file p) = Inr relief"
    and rendered: "gdal2tiles_main env (gdal2tiles_args p (''data/'' @ local_prefix p @ ''_rgb.vrt'')) relief
           = Inr rendered"
    and t: "t \<in> set rendered" "fst t \<noteq> []"
  shows "gdal2tiles_args p (''data/'' @ local_prefix p @ ''_rgb.vrt'') ! 3 = ''--zoom=0-11''
       \<and> path_parts (dst_name p) @ fst t \<in> file_names (snd (render_tiles env p False st))
       \<and> remote_path_of (path_parts (dst_name p) @ fst t) \<in> blob_names st1
       \<and> (4 \<le> length (path_parts (dst_name p)) \<longrightarrow>
            remote_path_of (path_parts (dst_name p) @ fst t)
              = join_str ''/'' (''tiles'' # drop 4 (path_parts (dst_name p)) @ fst t))
       \<and> list_all (\<lambda>f. \<not> below (path_parts (dst_name p)) f) (map fst (local_files st1))"
proof -
  let ?dir = "path_parts (dst_name p)"
  let ?r = "fold (add_rendered p) rendered
              (write_file st (''data/'' @ local_prefix p @ ''_rgb.vrt'') relief)"
  note rt = render_tiles_result [OF relief rendered]
  from t(1) have on_disk: "?dir @ fst t \<in> file_names ?r"
    using fold_add_rendered [of p rendered] by blast
  from run rt have up: "upload_tiles env (rglob ?r (dst_name p)) ?r = (None, st1)"
    by (simp add: create_tiles_def)
  note u = upload_tiles_result [OF up]
  from on_disk below_append [OF t(2)] have "?dir @ fst t \<in> set (rglob ?r (dst_name p)) \<inter> file_names ?r"
    by (simp add: set_rglob)
  with u have uploaded: "remote_path_of (?dir @ fst t) \<in> blob_names st1" by blast
  from u have "file_names st1 = file_names ?r - set (rglob ?r (dst_name p))" by simp
  then have "\<forall>f \<in> file_names st1. \<not> below ?dir f" by (auto simp add: set_rglob)
  then have gone: "list_all (\<lambda>f. \<not> below ?dir f) (map fst (local_files st1))"
    by (simp add: list_all_iff file_names_def)
  from on_disk rt have "?dir @ fst t \<in> file_names (snd (render_tiles env p False st))" by simp
  with zoom_argument uploaded remote_path_suffix gone show ?thesis by blast
qed

lemma demo_render: "render_tiles demo_env ndvi_2020 False with_mosaic = (None, rendered_state)"
  by (simp add: render_tiles_def rendered_state_def tile_defs demo_defs str_int_def str_nat.simps
      digit_char_def)

lemma demo_parts:
  "path_parts (dst_name ndvi_2020) = [''data'', ''tiles'', ''ndvi'', ''2020'', ''ndvi_2020'']"
  by (simp add: tile_defs demo_defs)

lemma demo_create: "create_tiles demo_env ndvi_2020 False with_mosaic = (None, after_tiles)"
  by (simp add: create_tiles_def demo_render)
     (simp add: rglob_def rendered_state_def after_tiles_def with_mosaic_def empty_state_def
        demo_parts below_def demo_env_def copy_to_blob_storage_def remote_path_of_def unlink_def)

theorem create_tiles_run_witness:
  "gdal2tiles_args ndvi_2020 (''data/'' @ local_prefix ndvi_2020 @ ''_rgb.vrt'') ! 3 = ''--zoom=0-11''
   \<and> [''data'', ''tiles'', ''ndvi'', ''2020'', ''ndvi_2020'', ''1'', ''0'', ''1.png'']
        \<in> file_names rendered_state
   \<and> ''tiles/ndvi_2020/1/0/1.png'' \<in> blob_names after_tiles
   \<and> remote_path_of [''data'', ''tiles'', ''ndvi'', ''2020'', ''ndvi_2020'', ''1'', ''0'', ''1.png'']
        = ''tiles/ndvi_2020/1/0/1.png''
   \<and> list_all (\<lambda>f. \<not> below [''data'', ''tiles'', ''ndvi'', ''2020'', ''ndvi_2020''] f)
         (map fst (local_files after_tiles))"
proof -
  have a: "gdal_DEMProcessing demo_env (file_content with_mosaic (mosaic_file ndvi_2020))
        (color_ramp_file ndvi_2020) = Inr ''relief''"
    by (simp add: demo_env_def)
  have b: "gdal2tiles_main demo_env
        (gdal2tiles_args ndvi_2020 (''data/'' @ local_prefix ndvi_2020 @ ''_rgb.vrt'')) ''relief''
      = Inr [([''0'', ''0'', ''0.png''], ''tile a''), ([''1'', ''0'', ''1.png''], ''tile b'')]"
    by (simp add: demo_env_def)
  have c: "([''1'', ''0'', ''1.png''], ''tile b'')
      \<in> set [([''0'', ''0'', ''0.png''], ''tile a''), ([''1'', ''0'', ''1.png''], ''tile b'')]"
    "fst ([''1'', ''0'', ''1.png''], ''tile b'') \<noteq> []"
    by simp_all
  have d: "remote_path_of [''data'', ''tiles'', ''ndvi'', ''2020'', ''ndvi_2020'', ''1'', ''0'', ''1.png'']
      = ''tiles/ndvi_2020/1/0/1.png''"
    by (simp add: remote_path_of_def)
  from create_tiles_run [OF demo_create a b c] demo_render demo_parts d
  show ?thesis by simp
qed

text \<open>
  C9 as stated fails: in the example the renderer writes two tiles; when it has returned,
  before anything is uploaded, both are on the local disk together.
\<close>

theorem whole_pyramid_on_disk:
  "gdal2tiles_main demo_env
       (gdal2tiles_args ndvi_2020 (''data/'' @ local_prefix ndvi_2020 @ ''_rgb.vrt'')) ''relief''
     = Inr [([''0'', ''0'', ''0.png''], ''tile a''), ([''1'', ''0'', ''1.png''], ''tile b'')]
   \<and> render_tiles demo_env ndvi_2020 False with_mosaic = (None, rendered_state)
   \<and> create_tiles demo_env ndvi_2020 False with_mosaic
       = upload_tiles demo_env (rglob rendered_state (dst_name ndvi_2020)) rendered_state
   \<and> uploads rendered_state = []
   \<and> map fst (local_files rendered_state)
       = [[''data'', ''ndvi_2020.tif''], [''data'', ''ndvi_2020_rgb.vrt''],
          [''data'', ''tiles'', ''ndvi'', ''2020'', ''ndvi_2020'', ''0'', ''0'', ''0.png''],
          [''data'', ''tiles'', ''ndvi'', ''2020'', ''ndvi_2020'', ''1'', ''0'', ''1.png'']]"
  by (simp add: create_tiles_def demo_render)
     (simp add: demo_env_def rendered_state_def with_mosaic_def empty_state_def)

end
